theory Spec2Isabelle
  imports Main "HOL-Library.Multiset" "HOL-Library.List_Lexorder" "HOL-Library.Char_ord"
begin

section \<open>Values decoded from JSON\<close>

text \<open>
  The RDAP client decodes parts of its input into Go's \<^verbatim>\<open>interface{}\<close>: after
  \<^verbatim>\<open>json.Unmarshal\<close> such a value is nil, a bool, a float64, a string, a
  \<^verbatim>\<open>[]interface{}\<close> or a \<^verbatim>\<open>map[string]interface{}\<close>. The code only ever
  asks whether a value is a string or an array, so the payload of a number is never read.
\<close>

datatype json =
    JNull
  | JBool bool
  | JNumber int
  | JString string
  | JArray "json list"
  | JObject "(string \<times> json) list"

text \<open>The type assertions \<^verbatim>\<open>v.([]interface{})\<close> and \<^verbatim>\<open>v.(string)\<close> in their
  two-result form: \<open>None\<close> is \<^verbatim>\<open>ok == false\<close>.\<close>

fun as_array :: "json \<Rightarrow> json list option" where
  "as_array (JArray xs) = Some xs"
| "as_array _ = None"

fun as_string :: "json \<Rightarrow> string option" where
  "as_string (JString s) = Some s"
| "as_string _ = None"

text \<open>\<^verbatim>\<open>if s, ok := v.(string); ok && s != ""\<close>\<close>

definition nonempty_string :: "json \<Rightarrow> string option" where
  "nonempty_string v =
     (case as_string v of
        None \<Rightarrow> None
      | Some s \<Rightarrow> if s \<noteq> '''' then Some s else None)"

section \<open>The RDAP response (rdap.go, lines 15-62)\<close>

record rdapLink =
  Value :: string
  Rel :: string
  Href :: string
  Type :: string

record rdapPublicID =
  Type :: string
  Identifier :: string

record rdapEvent =
  EventAction :: string
  EventDate :: string

record rdapEntity =
  ObjectClassName :: string
  Handle :: string
  VCardArray :: "json list"
  Roles :: "string list"

record rdapNameserver =
  ObjectClassName :: string
  LDHName :: string
  Links :: "rdapLink list"

record rdapDomain =
  ObjectClassName :: string
  Handle :: string
  LDHName :: string
  Nameservers :: "rdapNameserver list"
  Status :: "string list"
  Entities :: "rdapEntity list"
  Events :: "rdapEvent list"
  PublicIDs :: "rdapPublicID list"
  Links :: "rdapLink list"

record rdapError =
  ErrorCode :: int
  Title :: string
  Description :: "string list"

section \<open>Time\<close>

text \<open>
  A \<^verbatim>\<open>time.Time\<close> is an instant together with the zone it is shown in. The instant is
  counted in nanoseconds since the Unix epoch, the zone is its offset east of UTC in
  seconds. \<^verbatim>\<open>Before\<close> compares instants only.
\<close>

record Time =
  unixNano :: int
  zoneOffset :: int

definition Before :: "Time \<Rightarrow> Time \<Rightarrow> bool" where
  "Before t u = (unixNano t < unixNano u)"

definition After :: "Time \<Rightarrow> Time \<Rightarrow> bool" where
  "After t u = (unixNano t > unixNano u)"

text \<open>
  \<^verbatim>\<open>time.Parse(layout, value)\<close> and \<^verbatim>\<open>t.Format(layout)\<close> belong to Go's standard
  library. The functions of this repository take them from a \<open>timelib\<close>, so that every
  theorem below holds for whatever the library parses and prints; \<open>None\<close> is a parse
  error.
\<close>

record timelib =
  Parse :: "string \<Rightarrow> string \<Rightarrow> Time option"
  Format :: "Time \<Rightarrow> string \<Rightarrow> string"

definition RFC3339 :: string where
  "RFC3339 = ''2006-01-02T15:04:05Z07:00''"

section \<open>The canonical record (whoisparser.WhoisInfo)\<close>

text \<open>
  The fields of \<^verbatim>\<open>whoisparser.Domain\<close> and \<^verbatim>\<open>whoisparser.Contact\<close> that the
  converter writes; every other field of the two structs keeps its zero value. The two
  pointers of \<^verbatim>\<open>WhoisInfo\<close> and the \<^verbatim>\<open>*time.Time\<close> fields are options, \<open>None\<close>
  being nil.
\<close>

record whoisparser_Domain =
  ID :: string
  Domain :: string
  Status :: "string list"
  NameServers :: "string list"
  CreatedDate :: string
  CreatedDateInTime :: "Time option"
  UpdatedDate :: string
  UpdatedDateInTime :: "Time option"
  ExpirationDate :: string
  ExpirationDateInTime :: "Time option"

record whoisparser_Contact =
  ID :: string
  Name :: string
  Organization :: string

record WhoisInfo =
  Domain :: "whoisparser_Domain option"
  Registrar :: "whoisparser_Contact option"

section \<open>convertRDAPToWhoisInfo (rdap.go, lines 196-304)\<close>

text \<open>Lines 205-210: the loop over \<^verbatim>\<open>rdap.Nameservers\<close>, appending to
  \<^verbatim>\<open>domain.NameServers\<close>.\<close>

fun nameservers_loop :: "rdapNameserver list \<Rightarrow> string list \<Rightarrow> string list" where
  "nameservers_loop [] acc = acc"
| "nameservers_loop (ns # rest) acc =
     (if rdapNameserver.LDHName ns \<noteq> ''''
      then nameservers_loop rest (acc @ [rdapNameserver.LDHName ns])
      else nameservers_loop rest acc)"

text \<open>Lines 216-224: the loop over \<^verbatim>\<open>entity.Roles\<close>; the result is
  \<^verbatim>\<open>isRegistrar\<close>.\<close>

fun roles_loop :: "string list \<Rightarrow> bool" where
  "roles_loop [] = False"
| "roles_loop (role # rest) = (if role = ''registrar'' then True else roles_loop rest)"

text \<open>
  Lines 230-249: the loop over the vCard items. An item counts when it is an array of
  at least four elements whose first element is a string. A usable \<^verbatim>\<open>fn\<close> item sets
  the name and leaves the loop (\<^verbatim>\<open>break\<close>); a usable \<^verbatim>\<open>org\<close> item sets name and
  organization while the name is still empty, and the loop goes on. As in the source,
  the elements 0 and 3 are read only after the length test, so no read is out of range.
\<close>

fun vcard_loop :: "json list \<Rightarrow> whoisparser_Contact \<Rightarrow> whoisparser_Contact" where
  "vcard_loop [] registrar = registrar"
| "vcard_loop (item # rest) registrar =
     (case as_array item of
        None \<Rightarrow> vcard_loop rest registrar
      | Some itemArray \<Rightarrow>
          if length itemArray \<ge> 4 then
            (case as_string (itemArray ! 0) of
               None \<Rightarrow> vcard_loop rest registrar
             | Some itemType \<Rightarrow>
                 (case (if itemType = ''fn'' then nonempty_string (itemArray ! 3) else None) of
                    Some name \<Rightarrow> registrar\<lparr>Name := name\<rparr>
                  | None \<Rightarrow>
                      vcard_loop rest
                        (if itemType = ''org'' \<and> Name registrar = '''' then
                           (case nonempty_string (itemArray ! 3) of
                              Some org \<Rightarrow> registrar\<lparr>Organization := org, Name := org\<rparr>
                            | None \<Rightarrow> registrar)
                         else registrar)))
          else vcard_loop rest registrar)"

text \<open>Lines 219-221 and 226-255: the contact built for an entity that has the
  registrar role.\<close>

definition registrar_of_entity :: "rdapEntity \<Rightarrow> whoisparser_Contact" where
  "registrar_of_entity entity =
     (let registrar = \<lparr>whoisparser_Contact.ID = rdapEntity.Handle entity,
                       Name = '''', Organization = ''''\<rparr>;
          registrar =
            (if length (VCardArray entity) > 1 then
               (case as_array (VCardArray entity ! 1) of
                  Some vcardItems \<Rightarrow> vcard_loop vcardItems registrar
                | None \<Rightarrow> registrar)
             else registrar)
      in if Name registrar = '''' \<and> rdapEntity.Handle entity \<noteq> ''''
         then registrar\<lparr>Name := rdapEntity.Handle entity\<rparr>
         else registrar)"

text \<open>Lines 213-258: the loop over \<^verbatim>\<open>rdap.Entities\<close>, left at the first entity that
  has the registrar role (\<^verbatim>\<open>break\<close> on line 256).\<close>

fun entities_loop :: "rdapEntity list \<Rightarrow> whoisparser_Contact option" where
  "entities_loop [] = None"
| "entities_loop (entity # rest) =
     (if roles_loop (Roles entity) then Some (registrar_of_entity entity)
      else entities_loop rest)"

text \<open>Lines 267-275: RFC3339 first, then the layout
  \<^verbatim>\<open>2006-01-02T15:04:05Z\<close>.\<close>

definition parse_event_date :: "timelib \<Rightarrow> string \<Rightarrow> Time option" where
  "parse_event_date lib s =
     (case Parse lib RFC3339 s of
        Some eventTime \<Rightarrow> Some eventTime
      | None \<Rightarrow> Parse lib ''2006-01-02T15:04:05Z'' s)"

text \<open>Lines 262-291: the loop over \<^verbatim>\<open>rdap.Events\<close>. The switch assigns the field of
  the event's action whenever the date parses.\<close>

fun events_loop ::
  "timelib \<Rightarrow> rdapEvent list \<Rightarrow> whoisparser_Domain \<Rightarrow> whoisparser_Domain" where
  "events_loop lib [] domain = domain"
| "events_loop lib (event # rest) domain =
     (if EventDate event = '''' then events_loop lib rest domain
      else
        (case parse_event_date lib (EventDate event) of
           None \<Rightarrow> events_loop lib rest domain
         | Some eventTime \<Rightarrow>
             events_loop lib rest
               (if EventAction event = ''registration'' then
                  domain\<lparr>CreatedDate := Format lib eventTime RFC3339,
                         CreatedDateInTime := Some eventTime\<rparr>
                else if EventAction event = ''expiration'' then
                  domain\<lparr>ExpirationDate := Format lib eventTime RFC3339,
                         ExpirationDateInTime := Some eventTime\<rparr>
                else if EventAction event = ''last changed''
                      \<or> EventAction event = ''last update'' then
                  domain\<lparr>UpdatedDate := Format lib eventTime RFC3339,
                         UpdatedDateInTime := Some eventTime\<rparr>
                else domain)))"

definition convertRDAPToWhoisInfo :: "timelib \<Rightarrow> rdapDomain \<Rightarrow> string \<Rightarrow> WhoisInfo" where
  "convertRDAPToWhoisInfo lib rdap fqdn =
     (let domain = \<lparr>whoisparser_Domain.ID = rdapDomain.Handle rdap,
                    Domain = fqdn,
                    Status = rdapDomain.Status rdap,
                    NameServers = [],
                    CreatedDate = '''', CreatedDateInTime = None,
                    UpdatedDate = '''', UpdatedDateInTime = None,
                    ExpirationDate = '''', ExpirationDateInTime = None\<rparr>;
          domain = domain\<lparr>NameServers :=
                     nameservers_loop (Nameservers rdap) (NameServers domain)\<rparr>;
          registrar = entities_loop (Entities rdap);
          domain = events_loop lib (Events rdap) domain
      in \<lparr>Domain = Some domain, Registrar = registrar\<rparr>)"

section \<open>The resolver (rdap.go, lines 64-194)\<close>

subsection \<open>Strings\<close>

text \<open>
  \<^verbatim>\<open>strings.Split(s, sep)\<close> for a separator of one byte, as \<^verbatim>\<open>genSplit\<close> runs it:
  the text up to each separator becomes a part, and what is left after the last
  separator is the last part. The result is never empty.
\<close>

fun genSplit :: "string \<Rightarrow> string \<Rightarrow> char \<Rightarrow> string list" where
  "genSplit part [] sep = [part]"
| "genSplit part (c # s) sep =
     (if c = sep then part # genSplit [] s sep else genSplit (part @ [c]) s sep)"

definition Split :: "string \<Rightarrow> char \<Rightarrow> string list" where
  "Split s sep = genSplit [] s sep"

text \<open>\<^verbatim>\<open>strings.HasSuffix\<close> and \<^verbatim>\<open>strings.TrimSuffix\<close>.\<close>

definition HasSuffix :: "string \<Rightarrow> string \<Rightarrow> bool" where
  "HasSuffix s suffix =
     (length s \<ge> length suffix \<and> drop (length s - length suffix) s = suffix)"

definition TrimSuffix :: "string \<Rightarrow> string \<Rightarrow> string" where
  "TrimSuffix s suffix =
     (if HasSuffix s suffix then take (length s - length suffix) s else s)"

text \<open>
  \<^verbatim>\<open>strings.ToLower\<close> on the bytes \<open>A\<close> to \<open>Z\<close>; every other byte is kept. (Go also
  folds letters beyond ASCII. No statement below depends on what happens to them.)
\<close>

definition lower_byte :: "char \<Rightarrow> char" where
  "lower_byte c =
     (let n = (of_char c :: nat) in if 65 \<le> n \<and> n \<le> 90 then char_of (n + 32) else c)"

definition ToLower :: "string \<Rightarrow> string" where
  "ToLower s = map lower_byte s"

subsection \<open>The outside world\<close>

text \<open>
  An HTTP exchange either fails in transport or yields a response: its status code,
  the bytes \<^verbatim>\<open>io.ReadAll\<close> delivers from its body and the error \<^verbatim>\<open>io.ReadAll\<close>
  returns with them, if any.
\<close>

datatype net_error = NetError string

record Response =
  StatusCode :: int
  Body :: string
  ReadErr :: "net_error option"

text \<open>
  What the resolver reads from outside the repository: the answer of
  \<^verbatim>\<open>client.Get\<close> to a URL, the three uses of \<^verbatim>\<open>json.Unmarshal\<close> (into an
  \<^verbatim>\<open>rdapError\<close>, into an \<^verbatim>\<open>rdapDomain\<close>, and into the \<^verbatim>\<open>services\<close> of the
  bootstrap file; \<open>None\<close> is a decoding error), and the time library.
\<close>

record world =
  client_Get :: "string \<Rightarrow> net_error + Response"
  Unmarshal_rdapError :: "string \<Rightarrow> rdapError option"
  Unmarshal_rdapDomain :: "string \<Rightarrow> rdapDomain option"
  Unmarshal_services :: "string \<Rightarrow> json list list option"
  time :: timelib

text \<open>The errors of the resolver, one constructor for each place that makes one.\<close>

datatype error =
    InvalidDomain string         \<comment> \<open>\<^verbatim>\<open>invalid domain: %s\<close>\<close>
  | QueryFailed net_error        \<comment> \<open>\<^verbatim>\<open>RDAP query failed: %w\<close>\<close>
  | RDAPError string             \<comment> \<open>\<^verbatim>\<open>RDAP error: %s\<close>, with the payload's title\<close>
  | QueryStatus int              \<comment> \<open>\<^verbatim>\<open>RDAP query returned status %d\<close>\<close>
  | ReadFailed net_error         \<comment> \<open>\<^verbatim>\<open>failed to read RDAP response: %w\<close>\<close>
  | ParseFailed                  \<comment> \<open>\<^verbatim>\<open>failed to parse RDAP response: %w\<close>\<close>
  | BootstrapTransport net_error \<comment> \<open>the error of the bootstrap request or of reading its body\<close>
  | BootstrapStatus int          \<comment> \<open>\<^verbatim>\<open>bootstrap returned status %d\<close>\<close>
  | BootstrapDecode              \<comment> \<open>the decoding error of the bootstrap body\<close>
  | NoServerFound string         \<comment> \<open>\<^verbatim>\<open>no RDAP server found for TLD %s\<close>\<close>

definition StatusOK :: int where
  "StatusOK = 200"

subsection \<open>getRDAPServerFromBootstrap (lines 119-175)\<close>

text \<open>
  Lines 158-170: the loop over the labels of one service. \<open>service1\<close> is
  \<^verbatim>\<open>service[1]\<close>. A label that is the wanted one returns the first server when the
  servers are a non-empty array that starts with a string; in every other case the loop
  goes on.
\<close>

fun tlds_loop :: "json list \<Rightarrow> json \<Rightarrow> string \<Rightarrow> string option" where
  "tlds_loop [] service1 tld = None"
| "tlds_loop (t # rest) service1 tld =
     (case as_string t of
        None \<Rightarrow> tlds_loop rest service1 tld
      | Some tStr \<Rightarrow>
          if tStr = tld then
            (case as_array service1 of
               None \<Rightarrow> tlds_loop rest service1 tld
             | Some servers \<Rightarrow>
                 if length servers = 0 then tlds_loop rest service1 tld
                 else
                   (case as_string (servers ! 0) of
                      Some serverURL \<Rightarrow> Some (TrimSuffix serverURL ''/'')
                    | None \<Rightarrow> tlds_loop rest service1 tld))
          else tlds_loop rest service1 tld)"

text \<open>Lines 152-172: the loop over the services.\<close>

fun services_loop :: "json list list \<Rightarrow> string \<Rightarrow> string option" where
  "services_loop [] tld = None"
| "services_loop (service # rest) tld =
     (if length service \<ge> 2 then
        (case as_array (service ! 0) of
           None \<Rightarrow> services_loop rest tld
         | Some tlds \<Rightarrow>
             (case tlds_loop tlds (service ! 1) tld of
                Some serverURL \<Rightarrow> Some serverURL
              | None \<Rightarrow> services_loop rest tld))
      else services_loop rest tld)"

definition bootstrapURL :: string where
  "bootstrapURL = ''https://data.iana.org/rdap/dns.json''"

text \<open>The second component of the result is the list of the URLs requested so far, the
  new one last.\<close>

definition getRDAPServerFromBootstrap ::
  "world \<Rightarrow> string \<Rightarrow> string list \<Rightarrow> (error + string) \<times> string list" where
  "getRDAPServerFromBootstrap w tld calls =
     (let calls = calls @ [bootstrapURL] in
      case client_Get w bootstrapURL of
        Inl err \<Rightarrow> (Inl (BootstrapTransport err), calls)
      | Inr resp \<Rightarrow>
          if StatusCode resp \<noteq> StatusOK then (Inl (BootstrapStatus (StatusCode resp)), calls)
          else
            (case ReadErr resp of
               Some err \<Rightarrow> (Inl (BootstrapTransport err), calls)
             | None \<Rightarrow>
                 (case Unmarshal_services w (Body resp) of
                    None \<Rightarrow> (Inl BootstrapDecode, calls)
                  | Some services \<Rightarrow>
                      (case services_loop services tld of
                         Some serverURL \<Rightarrow> (Inr serverURL, calls)
                       | None \<Rightarrow> (Inl (NoServerFound tld), calls)))))"

subsection \<open>getFallbackRDAPServer (lines 177-194)\<close>

definition fallbackServers :: "string \<rightharpoonup> string" where
  "fallbackServers =
     map_of [(''dev'', ''https://rdap.org''),
             (''com'', ''https://rdap.org''),
             (''net'', ''https://rdap.org''),
             (''org'', ''https://rdap.org''),
             (''io'', ''https://rdap.org'')]"

definition getFallbackRDAPServer :: "string \<Rightarrow> string" where
  "getFallbackRDAPServer tld =
     (case fallbackServers (ToLower tld) of
        Some server \<Rightarrow> server
      | None \<Rightarrow> ''https://rdap.org'')"

subsection \<open>QueryRDAP (lines 64-117)\<close>

text \<open>Lines 81-116: the record query to the chosen server, and what is made of the
  response.\<close>

definition query_server ::
  "world \<Rightarrow> string \<Rightarrow> string \<Rightarrow> string list \<Rightarrow> (error + WhoisInfo) \<times> string list" where
  "query_server w rdapServerURL fqdn calls =
     (let domainURL = rdapServerURL @ ''/domain/'' @ fqdn;
          calls = calls @ [domainURL] in
      case client_Get w domainURL of
        Inl err \<Rightarrow> (Inl (QueryFailed err), calls)
      | Inr resp \<Rightarrow>
          if StatusCode resp \<noteq> StatusOK then
            (case Unmarshal_rdapError w (Body resp) of
               None \<Rightarrow> (Inl (QueryStatus (StatusCode resp)), calls)
             | Some rdapErr \<Rightarrow>
                 if Title rdapErr \<noteq> '''' then (Inl (RDAPError (Title rdapErr)), calls)
                 else (Inl (QueryStatus (StatusCode resp)), calls))
          else
            (case ReadErr resp of
               Some err \<Rightarrow> (Inl (ReadFailed err), calls)
             | None \<Rightarrow>
                 (case Unmarshal_rdapDomain w (Body resp) of
                    None \<Rightarrow> (Inl ParseFailed, calls)
                  | Some rdapDomainResp \<Rightarrow>
                      (Inr (convertRDAPToWhoisInfo (time w) rdapDomainResp fqdn), calls))))"

text \<open>Lines 73-79: the server from the bootstrap service, or the fallback server when
  the bootstrap service gave an error.\<close>

definition select_server :: "world \<Rightarrow> string \<Rightarrow> string list \<Rightarrow> string \<times> string list" where
  "select_server w tld calls =
     (case getRDAPServerFromBootstrap w tld calls of
        (Inl err, calls) \<Rightarrow> (getFallbackRDAPServer tld, calls)
      | (Inr rdapServerURL, calls) \<Rightarrow> (rdapServerURL, calls))"

text \<open>Lines 66-71, then the two steps above. The result comes with the URLs
  requested, in order.\<close>

definition QueryRDAP :: "world \<Rightarrow> string \<Rightarrow> (error + WhoisInfo) \<times> string list" where
  "QueryRDAP w fqdn =
     (let parts = Split fqdn (CHR ''.'') in
      if length parts < 2 then (Inl (InvalidDomain fqdn), [])
      else
        (let tld = parts ! (length parts - 1);
             (rdapServerURL, calls) = select_server w tld []
         in query_server w rdapServerURL fqdn calls))"

section \<open>The monitored domains (domain.configuration.go)\<close>

record Domain =
  Name :: string
  FQDN :: string
  Alerts :: bool
  Enabled :: bool

record DomainFile =
  Domains :: "Domain list"

record DomainConfiguration =
  DomainFile :: DomainFile
  Filepath :: string

text \<open>
  The loop \<^verbatim>\<open>for i, d := range dc.DomainFile.Domains\<close> of \<^verbatim>\<open>AddDomain\<close> and of
  \<^verbatim>\<open>RemoveDomain\<close>, up to the index at which it is left: the first \<open>i\<close> with
  \<^verbatim>\<open>d.FQDN == domain.FQDN\<close>, counted from the index of the head of the list.
\<close>

fun range_loop :: "Domain list \<Rightarrow> nat \<Rightarrow> string \<Rightarrow> nat option" where
  "range_loop [] i fqdn = None"
| "range_loop (d # rest) i fqdn =
     (if FQDN d = fqdn then Some i else range_loop rest (Suc i) fqdn)"

text \<open>
  \<^verbatim>\<open>Flush\<close> has a value receiver: it writes the file at \<^verbatim>\<open>dc.Filepath\<close> and leaves
  the configuration in memory as it is. The three operations below are the changes to
  the configuration in memory.
\<close>

definition AddDomain :: "DomainConfiguration \<Rightarrow> Domain \<Rightarrow> DomainConfiguration" where
  "AddDomain dc domain =
     (case range_loop (Domains (DomainFile dc)) 0 (FQDN domain) of
        Some i \<Rightarrow>
          dc\<lparr>DomainFile := (DomainFile dc)\<lparr>Domains := (Domains (DomainFile dc))[i := domain]\<rparr>\<rparr>
      | None \<Rightarrow>
          dc\<lparr>DomainFile := (DomainFile dc)\<lparr>Domains := Domains (DomainFile dc) @ [domain]\<rparr>\<rparr>)"

definition RemoveDomain :: "DomainConfiguration \<Rightarrow> Domain \<Rightarrow> DomainConfiguration" where
  "RemoveDomain dc domain =
     (case range_loop (Domains (DomainFile dc)) 0 (FQDN domain) of
        Some i \<Rightarrow>
          dc\<lparr>DomainFile := (DomainFile dc)\<lparr>Domains :=
               take i (Domains (DomainFile dc)) @ drop (i + 1) (Domains (DomainFile dc))\<rparr>\<rparr>
      | None \<Rightarrow> dc)"

definition UpdateDomain :: "DomainConfiguration \<Rightarrow> Domain \<Rightarrow> DomainConfiguration" where
  "UpdateDomain dc domain = AddDomain dc domain"

section \<open>Sorting the domain cards (domains.handler.go, lines 68-123)\<close>

text \<open>
  Modelled from the spec: the declaration of \<^verbatim>\<open>configuration.WhoisCache\<close> is not among
  the sources. It is the spec's CacheEntry, which holds the canonical record; the
  handler reads its field \<^verbatim>\<open>WhoisInfo\<close> and nothing else.
\<close>

record WhoisCache =
  WhoisInfo :: WhoisInfo

record domainWithWhois =
  domain :: Domain
  whois :: "WhoisCache option"

text \<open>
  Lines 75-84. \<^verbatim>\<open>WhoisService.GetWhois\<close> is a parameter: the cache lookup by FQDN,
  \<open>Inl\<close> being its error.
\<close>

fun whois_loop ::
  "(string \<Rightarrow> 'e + WhoisCache) \<Rightarrow> Domain list \<Rightarrow> domainWithWhois list \<Rightarrow> domainWithWhois list"
  where
  "whois_loop GetWhois [] domainsWithData = domainsWithData"
| "whois_loop GetWhois (d # rest) domainsWithData =
     (case GetWhois (FQDN d) of
        Inl err \<Rightarrow>
          whois_loop GetWhois rest (domainsWithData @ [\<lparr>domain = d, whois = None\<rparr>])
      | Inr w \<Rightarrow>
          whois_loop GetWhois rest (domainsWithData @ [\<lparr>domain = d, whois = Some w\<rparr>]))"

text \<open>The chain \<^verbatim>\<open>w == nil || w.WhoisInfo.Domain == nil ||
  w.WhoisInfo.Domain.ExpirationDateInTime == nil\<close> of lines 93 and 96, and the date that
  is read when it is false; likewise for the creation date (lines 102 and 105).\<close>

definition expiration_of :: "WhoisCache option \<Rightarrow> Time option" where
  "expiration_of w =
     (case w of
        None \<Rightarrow> None
      | Some c \<Rightarrow>
          (case WhoisInfo.Domain (WhoisInfo c) of
             None \<Rightarrow> None
           | Some d \<Rightarrow> ExpirationDateInTime d))"

definition creation_of :: "WhoisCache option \<Rightarrow> Time option" where
  "creation_of w =
     (case w of
        None \<Rightarrow> None
      | Some c \<Rightarrow>
          (case WhoisInfo.Domain (WhoisInfo c) of
             None \<Rightarrow> None
           | Some d \<Rightarrow> CreatedDateInTime d))"

text \<open>Lines 87-114: the comparison handed to \<^verbatim>\<open>sort.Slice\<close>, on the two elements
  at the indices it is called with. Go compares strings bytewise, as the lexicographic
  order on \<open>string\<close> does.\<close>

definition less_by :: "string \<Rightarrow> domainWithWhois \<Rightarrow> domainWithWhois \<Rightarrow> bool" where
  "less_by sortBy a b =
     (let wi = whois a; wj = whois b in
      if sortBy = ''expiration_date'' then
        (case expiration_of wi of
           None \<Rightarrow> False
         | Some ti \<Rightarrow>
             (case expiration_of wj of
                None \<Rightarrow> True
              | Some tj \<Rightarrow> Before ti tj))
      else if sortBy = ''creation_date'' then
        (case creation_of wi of
           None \<Rightarrow> False
         | Some ti \<Rightarrow>
             (case creation_of wj of
                None \<Rightarrow> True
              | Some tj \<Rightarrow> After ti tj))
      else if sortBy = ''name'' then Domain.Name (domain a) < Domain.Name (domain b)
      else False)"

text \<open>
  \<^verbatim>\<open>sort.Slice\<close> belongs to Go's standard library and is a parameter. What it promises
  for a comparison and a slice: the result is a rearrangement of the slice in which no
  element is less than one that stands before it.
\<close>

definition sort_Slice_spec ::
  "(('a \<Rightarrow> 'a \<Rightarrow> bool) \<Rightarrow> 'a list \<Rightarrow> 'a list) \<Rightarrow> ('a \<Rightarrow> 'a \<Rightarrow> bool) \<Rightarrow> 'a list \<Rightarrow> bool" where
  "sort_Slice_spec sort_Slice lt xs =
     (mset (sort_Slice lt xs) = mset xs
      \<and> sorted_wrt (\<lambda>a b. \<not> lt b a) (sort_Slice lt xs))"

definition sortDomainsWithWhois ::
  "((domainWithWhois \<Rightarrow> domainWithWhois \<Rightarrow> bool) \<Rightarrow> domainWithWhois list \<Rightarrow> domainWithWhois list)
   \<Rightarrow> (string \<Rightarrow> 'e + WhoisCache) \<Rightarrow> Domain list \<Rightarrow> string \<Rightarrow> Domain list" where
  "sortDomainsWithWhois sort_Slice GetWhois domainList sortBy =
     (let domainsWithData = whois_loop GetWhois domainList [];
          domainsWithData = sort_Slice (less_by sortBy) domainsWithData;
          sortedDomains = map domain domainsWithData
      in sortedDomains)"

text \<open>
  Insertion sort as \<^verbatim>\<open>sort.Slice\<close> runs it on a slice of at most twelve elements: each
  element in turn is swapped towards the front while it is less than its left
  neighbour. \<open>sink\<close> works on the part already sorted, last element first.
\<close>

fun sink :: "('a \<Rightarrow> 'a \<Rightarrow> bool) \<Rightarrow> 'a \<Rightarrow> 'a list \<Rightarrow> 'a list" where
  "sink lt x [] = [x]"
| "sink lt x (y # ys) = (if lt x y then y # sink lt x ys else x # y # ys)"

definition insertionSort :: "('a \<Rightarrow> 'a \<Rightarrow> bool) \<Rightarrow> 'a list \<Rightarrow> 'a list" where
  "insertionSort lt xs = rev (foldl (\<lambda>front x. sink lt x front) [] xs)"

section \<open>A time library for UTC timestamps\<close>

text \<open>
  To run the converter on concrete responses: the timestamps of the form
  \<^verbatim>\<open>YYYY-MM-DDTHH:MM:SSZ\<close>, which Go parses under both layouts of the converter and
  prints under RFC3339 for a time in UTC. Days are counted in the proleptic Gregorian
  calendar.
\<close>

definition digit_of :: "char \<Rightarrow> int option" where
  "digit_of c =
     (let n = (of_char c :: int) in if 48 \<le> n \<and> n \<le> 57 then Some (n - 48) else None)"

fun number_of :: "string \<Rightarrow> int \<Rightarrow> int option" where
  "number_of [] acc = Some acc"
| "number_of (c # cs) acc =
     (case digit_of c of None \<Rightarrow> None | Some d \<Rightarrow> number_of cs (10 * acc + d))"

definition days_from_civil :: "int \<Rightarrow> int \<Rightarrow> int \<Rightarrow> int" where
  "days_from_civil y m d =
     (let y' = (if m \<le> 2 then y - 1 else y);
          era = y' div 400;
          yoe = y' - era * 400;
          doy = (153 * (if m > 2 then m - 3 else m + 9) + 2) div 5 + d - 1;
          doe = yoe * 365 + yoe div 4 - yoe div 100 + doy
      in era * 146097 + doe - 719468)"

definition civil_from_days :: "int \<Rightarrow> int \<times> int \<times> int" where
  "civil_from_days z =
     (let z' = z + 719468;
          era = z' div 146097;
          doe = z' - era * 146097;
          yoe = (doe - doe div 1460 + doe div 36524 - doe div 146096) div 365;
          doy = doe - (365 * yoe + yoe div 4 - yoe div 100);
          mp = (5 * doy + 2) div 153;
          d = doy - (153 * mp + 2) div 5 + 1;
          m = (if mp < 10 then mp + 3 else mp - 9)
      in (yoe + era * 400 + (if m \<le> 2 then 1 else 0), m, d))"

definition days_in_month :: "int \<Rightarrow> int \<Rightarrow> int" where
  "days_in_month y m =
     (if m = 2 then (if y mod 4 = 0 \<and> (y mod 100 \<noteq> 0 \<or> y mod 400 = 0) then 29 else 28)
      else if m = 4 \<or> m = 6 \<or> m = 9 \<or> m = 11 then 30 else 31)"

definition parse_utc :: "string \<Rightarrow> Time option" where
  "parse_utc s =
     (if length s = 20 \<and> s ! 4 = CHR ''-'' \<and> s ! 7 = CHR ''-'' \<and> s ! 10 = CHR ''T''
         \<and> s ! 13 = CHR '':'' \<and> s ! 16 = CHR '':'' \<and> s ! 19 = CHR ''Z'' then
        (case (number_of (take 4 s) 0, number_of (take 2 (drop 5 s)) 0,
               number_of (take 2 (drop 8 s)) 0, number_of (take 2 (drop 11 s)) 0,
               number_of (take 2 (drop 14 s)) 0, number_of (take 2 (drop 17 s)) 0) of
           (Some y, Some m, Some d, Some h, Some mi, Some sec) \<Rightarrow>
             if 1 \<le> m \<and> m \<le> 12 \<and> 1 \<le> d \<and> d \<le> days_in_month y m
                \<and> h < 24 \<and> mi < 60 \<and> sec < 60 then
               Some \<lparr>unixNano =
                       (days_from_civil y m d * 86400 + h * 3600 + mi * 60 + sec) * 1000000000,
                     zoneOffset = 0\<rparr>
             else None
         | _ \<Rightarrow> None)
      else None)"

definition two_digits :: "int \<Rightarrow> string" where
  "two_digits n = [char_of (48 + n div 10 mod 10), char_of (48 + n mod 10)]"

definition format_utc :: "Time \<Rightarrow> string" where
  "format_utc t =
     (let secs = unixNano t div 1000000000;
          (y, m, d) = civil_from_days (secs div 86400);
          r = secs mod 86400
      in two_digits (y div 100) @ two_digits y @ ''-'' @ two_digits m @ ''-'' @ two_digits d
         @ ''T'' @ two_digits (r div 3600) @ '':'' @ two_digits (r div 60 mod 60)
         @ '':'' @ two_digits (r mod 60) @ ''Z'')"

definition utc_timelib :: timelib where
  "utc_timelib =
     \<lparr>Parse = (\<lambda>layout v.
                 if layout = RFC3339 \<or> layout = ''2006-01-02T15:04:05Z'' then parse_utc v
                 else None),
      Format = (\<lambda>t layout. if layout = RFC3339 then format_utc t else '''')\<rparr>"

section \<open>What the specification says, in its own words\<close>

subsection \<open>Events\<close>

text \<open>The instant of an event that the converter can use: the date is not empty and
  parses under one of the two layouts.\<close>

definition event_time :: "timelib \<Rightarrow> rdapEvent \<Rightarrow> Time option" where
  "event_time lib e =
     (if EventDate e = '''' then None else parse_event_date lib (EventDate e))"

text \<open>The parseable events whose action is one of \<open>actions\<close>, in response order.\<close>

definition events_for :: "timelib \<Rightarrow> string list \<Rightarrow> rdapEvent list \<Rightarrow> rdapEvent list" where
  "events_for lib actions evs =
     filter (\<lambda>e. EventAction e \<in> set actions \<and> event_time lib e \<noteq> None) evs"

definition first_occurrence :: "timelib \<Rightarrow> string list \<Rightarrow> rdapEvent list \<Rightarrow> Time option" where
  "first_occurrence lib actions evs =
     (case events_for lib actions evs of [] \<Rightarrow> None | e # es \<Rightarrow> event_time lib e)"

definition last_occurrence :: "timelib \<Rightarrow> string list \<Rightarrow> rdapEvent list \<Rightarrow> Time option" where
  "last_occurrence lib actions evs =
     (case events_for lib actions evs of [] \<Rightarrow> None | e # es \<Rightarrow> event_time lib (last (e # es)))"

text \<open>The text a date field holds for an instant: its RFC3339 form, or nothing.\<close>

definition date_text :: "timelib \<Rightarrow> Time option \<Rightarrow> string" where
  "date_text lib t = (case t of None \<Rightarrow> '''' | Some eventTime \<Rightarrow> Format lib eventTime RFC3339)"

subsection \<open>The registrar\<close>

text \<open>The first entity, in response order, whose role list contains
  \<^verbatim>\<open>registrar\<close>.\<close>

definition first_registrar :: "rdapEntity list \<Rightarrow> rdapEntity option" where
  "first_registrar entities = find (\<lambda>e. ''registrar'' \<in> set (Roles e)) entities"

text \<open>The items of an entity's contact card: the second element of its
  \<^verbatim>\<open>vcardArray\<close>, when that is an array.\<close>

definition vcard_items :: "rdapEntity \<Rightarrow> json list" where
  "vcard_items e =
     (if length (VCardArray e) > 1 then
        (case as_array (VCardArray e ! 1) of Some items \<Rightarrow> items | None \<Rightarrow> [])
      else [])"

text \<open>The text of a card item of the given type: the item is an array of at least four
  elements, its first element is the type and its fourth a non-empty string.\<close>

definition vcard_field :: "string \<Rightarrow> json \<Rightarrow> string option" where
  "vcard_field ty item =
     (case as_array item of
        None \<Rightarrow> None
      | Some a \<Rightarrow>
          if length a \<ge> 4 \<and> as_string (a ! 0) = Some ty then nonempty_string (a ! 3)
          else None)"

fun first_field :: "string \<Rightarrow> json list \<Rightarrow> string option" where
  "first_field ty [] = None"
| "first_field ty (item # items) =
     (case vcard_field ty item of Some v \<Rightarrow> Some v | None \<Rightarrow> first_field ty items)"

text \<open>Full name first, then organization, then the handle.\<close>

definition display_name :: "rdapEntity \<Rightarrow> string" where
  "display_name e =
     (case first_field ''fn'' (vcard_items e) of
        Some name \<Rightarrow> name
      | None \<Rightarrow>
          (case first_field ''org'' (vcard_items e) of
             Some org \<Rightarrow> org
           | None \<Rightarrow> rdapEntity.Handle e))"

subsection \<open>Labels\<close>

text \<open>The substring after the last separator; the whole string when it has no
  separator.\<close>

definition after_last :: "char \<Rightarrow> string \<Rightarrow> string" where
  "after_last sep s = rev (takeWhile (\<lambda>c. c \<noteq> sep) (rev s))"

text \<open>A status in the range 200 to 299.\<close>

definition is_2xx :: "int \<Rightarrow> bool" where
  "is_2xx status = (200 \<le> status \<and> status < 300)"

subsection \<open>Bootstrap discovery\<close>

text \<open>An entry of the bootstrap file matches a label when it has its two elements and
  the label stands in its list of labels.\<close>

definition matching_entry :: "json list list \<Rightarrow> string \<Rightarrow> bool" where
  "matching_entry services tld =
     list_ex (\<lambda>service. length service \<ge> 2 \<and>
                (case as_array (service ! 0) of
                   None \<Rightarrow> False
                 | Some tlds \<Rightarrow> JString tld \<in> set tlds)) services"

text \<open>The failures of bootstrap discovery: a transport error, of the request or while
  the body is read, a status outside 200 to 299, a body that does not decode, or no
  matching entry for the label.\<close>

definition discovery_failure :: "world \<Rightarrow> string \<Rightarrow> bool" where
  "discovery_failure w tld =
     (case client_Get w bootstrapURL of
        Inl err \<Rightarrow> True
      | Inr resp \<Rightarrow>
          \<not> is_2xx (StatusCode resp)
          \<or> ReadErr resp \<noteq> None
          \<or> (case Unmarshal_services w (Body resp) of
                None \<Rightarrow> True
              | Some services \<Rightarrow> \<not> matching_entry services tld))"

text \<open>The errors that come from bootstrap discovery.\<close>

fun is_discovery_error :: "error \<Rightarrow> bool" where
  "is_discovery_error (BootstrapTransport err) = True"
| "is_discovery_error (BootstrapStatus status) = True"
| "is_discovery_error BootstrapDecode = True"
| "is_discovery_error (NoServerFound tld) = True"
| "is_discovery_error _ = False"

subsection \<open>Cached expiration dates\<close>

text \<open>The known cached expiration date of a domain: that of the cache entry found under
  its FQDN, when there is an entry and it holds a record with an expiration date.\<close>

definition cached_expiration :: "(string \<Rightarrow> 'e + WhoisCache) \<Rightarrow> Domain \<Rightarrow> Time option" where
  "cached_expiration GetWhois d =
     (case GetWhois (FQDN d) of
        Inl err \<Rightarrow> None
      | Inr c \<Rightarrow> expiration_of (Some c))"

section \<open>Concrete inputs\<close>

text \<open>
  A response for \<^verbatim>\<open>example.com\<close>: three nameserver objects, one of them without a
  host name and one a repetition; an entity that is no registrar and two that are; two
  expiration events, an event whose date does not parse, and two update events.
\<close>

definition example_response :: rdapDomain where
  "example_response =
     \<lparr>rdapDomain.ObjectClassName = ''domain'',
      Handle = ''2336799_DOMAIN_COM-VRSN'',
      LDHName = ''EXAMPLE.COM'',
      Nameservers =
        [\<lparr>rdapNameserver.ObjectClassName = ''nameserver'', LDHName = ''A.IANA-SERVERS.NET'', Links = []\<rparr>,
         \<lparr>rdapNameserver.ObjectClassName = ''nameserver'', LDHName = '''', Links = []\<rparr>,
         \<lparr>rdapNameserver.ObjectClassName = ''nameserver'', LDHName = ''A.IANA-SERVERS.NET'', Links = []\<rparr>],
      Status = [''client transfer prohibited''],
      Entities =
        [\<lparr>rdapEntity.ObjectClassName = ''entity'', Handle = ''ABUSE'', VCardArray = [],
          Roles = [''abuse'']\<rparr>,
         \<lparr>rdapEntity.ObjectClassName = ''entity'', Handle = ''376'',
          VCardArray =
            [JString ''vcard'',
             JArray [JArray [JString ''version'', JObject [], JString ''text'', JString ''4.0''],
                     JArray [JString ''org'', JObject [], JString ''text'', JString ''RESERVED''],
                     JArray [JString ''fn'', JObject [], JString ''text'',
                             JString ''Internet Assigned Numbers Authority'']]],
          Roles = [''technical'', ''registrar'']\<rparr>,
         \<lparr>rdapEntity.ObjectClassName = ''entity'', Handle = ''9999'', VCardArray = [],
          Roles = [''registrar'']\<rparr>],
      Events =
        [\<lparr>EventAction = ''registration'', EventDate = ''1995-08-14 04:00:00''\<rparr>,
         \<lparr>EventAction = ''expiration'', EventDate = ''2025-01-15T00:00:00Z''\<rparr>,
         \<lparr>EventAction = ''last changed'', EventDate = ''2024-08-14T07:01:34Z''\<rparr>,
         \<lparr>EventAction = ''expiration'', EventDate = ''2026-01-15T00:00:00Z''\<rparr>,
         \<lparr>EventAction = ''last update'', EventDate = ''2024-09-01T12:00:00Z''\<rparr>],
      PublicIDs = [],
      Links = []\<rparr>"

text \<open>
  A world given by the answer to the bootstrap request and the answer to every other
  request. Its decoders know three bodies: \<^verbatim>\<open>services\<close> is a bootstrap file with one
  entry for \<^verbatim>\<open>com\<close> and \<^verbatim>\<open>net\<close>, \<^verbatim>\<open>domain\<close> is the response above and
  \<^verbatim>\<open>not found\<close> is an error payload.
\<close>

definition example_world :: "(net_error + Response) \<Rightarrow> (net_error + Response) \<Rightarrow> world" where
  "example_world bootstrap_answer record_answer =
     \<lparr>client_Get = (\<lambda>url. if url = bootstrapURL then bootstrap_answer else record_answer),
      Unmarshal_rdapError =
        (\<lambda>body. if body = ''not found''
                 then Some \<lparr>ErrorCode = 404, Title = ''Not Found'', Description = []\<rparr>
                 else None),
      Unmarshal_rdapDomain = (\<lambda>body. if body = ''domain'' then Some example_response else None),
      Unmarshal_services =
        (\<lambda>body. if body = ''services''
                 then Some [[JArray [JString ''com'', JString ''net''],
                             JArray [JString ''https://rdap.verisign.com/com/v1/'']]]
                 else None),
      time = utc_timelib\<rparr>"

definition answer :: "int \<Rightarrow> string \<Rightarrow> net_error + Response" where
  "answer status body = Inr \<lparr>StatusCode = status, Body = body, ReadErr = None\<rparr>"

text \<open>
  Four monitored domains and a cache: \<^verbatim>\<open>a.com\<close> expires on 15 January 2026,
  \<^verbatim>\<open>c.net\<close> on 15 January 2025, \<^verbatim>\<open>d.io\<close> has an entry without a record and
  \<^verbatim>\<open>b.org\<close> has no entry.
\<close>

definition example_domains :: "Domain list" where
  "example_domains =
     [\<lparr>Name = ''Alpha'', FQDN = ''a.com'', Alerts = True, Enabled = True\<rparr>,
      \<lparr>Name = ''Bravo'', FQDN = ''b.org'', Alerts = True, Enabled = True\<rparr>,
      \<lparr>Name = ''Charlie'', FQDN = ''c.net'', Alerts = False, Enabled = True\<rparr>,
      \<lparr>Name = ''Delta'', FQDN = ''d.io'', Alerts = True, Enabled = False\<rparr>]"

definition example_GetWhois :: "string \<Rightarrow> string + WhoisCache" where
  "example_GetWhois fqdn =
     (if fqdn = ''a.com'' then
        Inr \<lparr>WhoisInfo = convertRDAPToWhoisInfo utc_timelib example_response ''a.com''\<rparr>
      else if fqdn = ''c.net'' then
        Inr \<lparr>WhoisInfo = convertRDAPToWhoisInfo utc_timelib
                 (example_response\<lparr>Events := take 3 (Events example_response)\<rparr>) ''c.net''\<rparr>
      else if fqdn = ''d.io'' then
        Inr \<lparr>WhoisInfo = \<lparr>WhoisInfo.Domain = None, Registrar = None\<rparr>\<rparr>
      else Inl ''no whois data'')"

section \<open>Nameservers\<close>

lemma nameservers_loop_filter:
  "nameservers_loop nss acc = acc @ filter (\<lambda>h. h \<noteq> '''') (map rdapNameserver.LDHName nss)"
  by (induction nss arbitrary: acc) simp_all

lemma events_loop_NameServers: "NameServers (events_loop lib evs d) = NameServers d"
  by (induction evs arbitrary: d) (simp_all split: option.splits)

text \<open>
  Claim C6. For every RDAP response, the nameserver sequence of the canonical record
  consists of exactly the host names of the nameserver sub-objects whose host name is
  not empty, in response order; nothing is deduplicated.
\<close>

theorem nameservers_in_response_order:
  "\<exists>d. WhoisInfo.Domain (convertRDAPToWhoisInfo lib rdap fqdn) = Some d
       \<and> NameServers d = filter (\<lambda>h. h \<noteq> '''') (map rdapNameserver.LDHName (Nameservers rdap))"
  by (simp add: convertRDAPToWhoisInfo_def Let_def events_loop_NameServers nameservers_loop_filter)

section \<open>The fallback endpoint\<close>

text \<open>
  Claim C9. For every label, the static fallback selector returns
  \<^verbatim>\<open>https://rdap.org\<close>: every entry of the fallback table holds that endpoint, and
  so does the default, so the fallback endpoint does not depend on the label.
\<close>

theorem fallback_server_is_constant:
  "getFallbackRDAPServer tld = ''https://rdap.org''
   \<and> ran fallbackServers = {''https://rdap.org''}"
proof
  show "getFallbackRDAPServer tld = ''https://rdap.org''"
    by (simp add: getFallbackRDAPServer_def fallbackServers_def split: option.splits)
  show "ran fallbackServers = {''https://rdap.org''}"
    by (auto simp: fallbackServers_def ran_def split: if_splits)
qed

section \<open>The list of monitored domains\<close>

lemma range_loop_None: "(range_loop ds i f = None) = (f \<notin> FQDN ` set ds)"
  by (induction ds arbitrary: i) auto

lemma range_loop_Some:
  "range_loop ds i f = Some k \<Longrightarrow>
     i \<le> k \<and> k - i < length ds \<and> FQDN (ds ! (k - i)) = f \<and> (\<forall>j < k - i. FQDN (ds ! j) \<noteq> f)"
proof (induction ds arbitrary: i)
  case Nil then show ?case by simp
next
  case (Cons d ds)
  show ?case
  proof (cases "FQDN d = f")
    case True with Cons.prems show ?thesis by simp
  next
    case False
    with Cons.prems have r: "range_loop ds (Suc i) f = Some k" by simp
    from Cons.IH[OF r] have a: "Suc i \<le> k" and b: "k - Suc i < length ds"
      and c: "FQDN (ds ! (k - Suc i)) = f" and e: "\<forall>j < k - Suc i. FQDN (ds ! j) \<noteq> f" by auto
    from a have eq: "k - i = Suc (k - Suc i)" by simp
    show ?thesis using a b c e False by (auto simp: eq nth_Cons')
     
  qed
qed

lemma range_loop_first:
  assumes "i < length ds" "FQDN (ds ! i) = f" "\<forall>j < i. FQDN (ds ! j) \<noteq> f"
  shows "range_loop ds 0 f = Some i"
proof -
  have "f \<in> FQDN ` set ds" using assms(1,2) by force
  then obtain k where k: "range_loop ds 0 f = Some k"
    using range_loop_None[of ds 0 f] by (cases "range_loop ds 0 f") auto
  from range_loop_Some[OF k] have k1: "FQDN (ds ! k) = f" and k2: "\<forall>j < k. FQDN (ds ! j) \<noteq> f"
    by auto
  have "\<not> k < i" using assms(3) k1 by blast
  moreover have "\<not> i < k" using k2 assms(2) by blast
  ultimately have "k = i" by simp
  with k show ?thesis by simp
qed

lemma distinct_map_update:
  assumes "distinct (map g xs)" "i < length xs" "g (xs ! i) = g y"
  shows "distinct (map g (xs[i := y]))"
proof -
  have "map g (xs[i := y]) = (map g xs)[i := g y]" by (simp add: map_update)
  also have "\<dots> = map g xs" using assms(2,3) by (metis length_map list_update_id nth_map)
  finally show ?thesis using assms(1) by simp
qed

lemma distinct_map_remove:
  assumes "distinct (map g xs)"
  shows "distinct (map g (take i xs @ drop (Suc i) xs))"
proof -
  have "map g (take i xs @ drop (Suc i) xs) = take i (map g xs) @ drop (Suc i) (map g xs)"
    by (simp add: take_map drop_map)
  moreover have "distinct (take i (map g xs) @ drop (Suc i) (map g xs))"
    using assms by (simp add: set_take_disj_set_drop_if_distinct)
  ultimately show ?thesis by simp
qed

lemma distinct_first_match:
  assumes "distinct (map FQDN ds)" "i < length ds" "FQDN (ds ! i) = f"
  shows "range_loop ds 0 f = Some i"
proof (rule range_loop_first[OF assms(2,3)])
  show "\<forall>j<i. FQDN (ds ! j) \<noteq> f"
  proof (intro allI impI)
    fix j assume "j < i"
    then have "j < length (map FQDN ds)" "i < length (map FQDN ds)" "j \<noteq> i"
      using assms(2) by auto
    then have "map FQDN ds ! j \<noteq> map FQDN ds ! i"
      using assms(1) unfolding distinct_conv_nth by blast
    then show "FQDN (ds ! j) \<noteq> f" using assms(2,3) \<open>j < i\<close> by simp
  qed
qed

text \<open>
  Claim C8. On a list whose FQDNs are pairwise distinct, each operation leaves the FQDNs
  pairwise distinct. \<open>AddDomain\<close> replaces the entry of the same FQDN in place when
  there is one and appends otherwise; \<open>RemoveDomain\<close> removes the entry of the same
  FQDN and changes nothing when there is none; \<open>UpdateDomain\<close> is \<open>AddDomain\<close>.
\<close>

theorem domain_operations_keep_fqdns_distinct:
  assumes "distinct (map FQDN (Domains (DomainFile dc)))"
  shows "distinct (map FQDN (Domains (DomainFile (AddDomain dc d))))
       \<and> distinct (map FQDN (Domains (DomainFile (RemoveDomain dc d))))
       \<and> distinct (map FQDN (Domains (DomainFile (UpdateDomain dc d))))
       \<and> (\<forall>i. i < length (Domains (DomainFile dc)) \<and> FQDN (Domains (DomainFile dc) ! i) = FQDN d \<longrightarrow>
             Domains (DomainFile (AddDomain dc d)) = (Domains (DomainFile dc))[i := d]
           \<and> Domains (DomainFile (RemoveDomain dc d))
               = take i (Domains (DomainFile dc)) @ drop (Suc i) (Domains (DomainFile dc)))
       \<and> (FQDN d \<notin> FQDN ` set (Domains (DomainFile dc)) \<longrightarrow>
             Domains (DomainFile (AddDomain dc d)) = Domains (DomainFile dc) @ [d]
           \<and> RemoveDomain dc d = dc)
       \<and> UpdateDomain dc d = AddDomain dc d"
proof -
  let ?ds = "Domains (DomainFile dc)"
  have add: "distinct (map FQDN (Domains (DomainFile (AddDomain dc d))))"
  proof (cases "range_loop ?ds 0 (FQDN d)")
    case None
    then have "FQDN d \<notin> FQDN ` set ?ds" by (simp add: range_loop_None)
    with None assms show ?thesis by (simp add: AddDomain_def)
  next
    case (Some i)
    from range_loop_Some[OF Some] have "i < length ?ds" "FQDN (?ds ! i) = FQDN d" by auto
    with Some assms show ?thesis by (simp add: AddDomain_def distinct_map_update)
  qed
  have rem: "distinct (map FQDN (Domains (DomainFile (RemoveDomain dc d))))"
  proof (cases "range_loop ?ds 0 (FQDN d)")
    case None
    with assms show ?thesis by (simp add: RemoveDomain_def)
  next
    case (Some i)
    with distinct_map_remove[OF assms, of i] show ?thesis by (simp add: RemoveDomain_def)
  qed
  have hit: "\<forall>i. i < length ?ds \<and> FQDN (?ds ! i) = FQDN d \<longrightarrow>
             Domains (DomainFile (AddDomain dc d)) = ?ds[i := d]
           \<and> Domains (DomainFile (RemoveDomain dc d)) = take i ?ds @ drop (Suc i) ?ds"
  proof (intro allI impI)
    fix i assume "i < length ?ds \<and> FQDN (?ds ! i) = FQDN d"
    then have "range_loop ?ds 0 (FQDN d) = Some i"
      using distinct_first_match[OF assms] by blast
    then show "Domains (DomainFile (AddDomain dc d)) = ?ds[i := d]
           \<and> Domains (DomainFile (RemoveDomain dc d)) = take i ?ds @ drop (Suc i) ?ds"
      by (simp add: AddDomain_def RemoveDomain_def)
  qed
  have miss: "FQDN d \<notin> FQDN ` set ?ds \<longrightarrow>
             Domains (DomainFile (AddDomain dc d)) = ?ds @ [d] \<and> RemoveDomain dc d = dc"
  proof
    assume "FQDN d \<notin> FQDN ` set ?ds"
    then have "range_loop ?ds 0 (FQDN d) = None" by (simp add: range_loop_None)
    then show "Domains (DomainFile (AddDomain dc d)) = ?ds @ [d] \<and> RemoveDomain dc d = dc"
      by (simp add: AddDomain_def RemoveDomain_def)
  qed
  from add rem hit miss show ?thesis by (simp add: UpdateDomain_def)
qed


text \<open>The theorem at a list of two domains, updating and removing the second.\<close>

theorem domain_operations_keep_fqdns_distinct_witness:
  "distinct (map FQDN (Domains (DomainFile
      \<lparr>DomainFile = \<lparr>Domains = [\<lparr>Name = ''A'', FQDN = ''a.com'', Alerts = True, Enabled = True\<rparr>,
                               \<lparr>Name = ''B'', FQDN = ''b.org'', Alerts = False, Enabled = True\<rparr>]\<rparr>,
       Filepath = ''domain.yaml''\<rparr>)))
   \<and> Domains (DomainFile (AddDomain
      \<lparr>DomainFile = \<lparr>Domains = [\<lparr>Name = ''A'', FQDN = ''a.com'', Alerts = True, Enabled = True\<rparr>,
                               \<lparr>Name = ''B'', FQDN = ''b.org'', Alerts = False, Enabled = True\<rparr>]\<rparr>,
       Filepath = ''domain.yaml''\<rparr>
      \<lparr>Name = ''B2'', FQDN = ''b.org'', Alerts = True, Enabled = False\<rparr>))
     = [\<lparr>Name = ''A'', FQDN = ''a.com'', Alerts = True, Enabled = True\<rparr>,
        \<lparr>Name = ''B2'', FQDN = ''b.org'', Alerts = True, Enabled = False\<rparr>]
   \<and> Domains (DomainFile (RemoveDomain
      \<lparr>DomainFile = \<lparr>Domains = [\<lparr>Name = ''A'', FQDN = ''a.com'', Alerts = True, Enabled = True\<rparr>,
                               \<lparr>Name = ''B'', FQDN = ''b.org'', Alerts = False, Enabled = True\<rparr>]\<rparr>,
       Filepath = ''domain.yaml''\<rparr>
      \<lparr>Name = ''B2'', FQDN = ''b.org'', Alerts = True, Enabled = False\<rparr>))
     = [\<lparr>Name = ''A'', FQDN = ''a.com'', Alerts = True, Enabled = True\<rparr>]"
  using domain_operations_keep_fqdns_distinct
    [of "\<lparr>DomainFile = \<lparr>Domains = [\<lparr>Name = ''A'', FQDN = ''a.com'', Alerts = True, Enabled = True\<rparr>,
                               \<lparr>Name = ''B'', FQDN = ''b.org'', Alerts = False, Enabled = True\<rparr>]\<rparr>,
       Filepath = ''domain.yaml''\<rparr>"
       "\<lparr>Name = ''B2'', FQDN = ''b.org'', Alerts = True, Enabled = False\<rparr>"]
  by (simp add: AddDomain_def RemoveDomain_def)

section \<open>The resolver\<close>

lemma genSplit_length: "length (genSplit p s sep) = Suc (count_list s sep)"
  by (induction s arbitrary: p) simp_all

lemma Split_short: "(length (Split s sep) < 2) = (sep \<notin> set s)"
proof -
  have "(count_list s sep = 0) = (sep \<notin> set s)" by (simp add: count_list_0_iff)
  then show ?thesis unfolding Split_def genSplit_length by auto
qed

lemma genSplit_nonempty: "genSplit p s sep \<noteq> []"
  by (induction s arbitrary: p) simp_all

lemma after_last_Cons:
  "after_last sep (c # s) = (if sep \<in> set s then after_last sep s
                              else if c = sep then s else c # s)"
  by (auto simp: after_last_def takeWhile_append)

lemma genSplit_last:
  "last (genSplit p s sep) = (if sep \<in> set s then after_last sep s else p @ s)"
proof (induction s arbitrary: p)
  case Nil
  then show ?case by simp
next
  case (Cons c s)
  show ?case
  proof (cases "c = sep")
    case True
    then show ?thesis using Cons.IH[of "[]"] genSplit_nonempty[of "[]" s sep]
      by (simp add: after_last_Cons)
  next
    case False
    then show ?thesis using Cons.IH[of "p @ [c]"] by (simp add: after_last_Cons)
  qed
qed

lemma after_last_no_sep:
  assumes "sep \<notin> set s"
  shows "after_last sep s = s"
proof -
  have "\<forall>c \<in> set (rev s). c \<noteq> sep" using assms by auto
  then have "takeWhile (\<lambda>c. c \<noteq> sep) (rev s) = rev s"
    by (rule takeWhile_eq_all_conv[THEN iffD2])
  then show ?thesis unfolding after_last_def by (simp only: rev_rev_ident)
qed

lemma Split_tld:
  "Split s sep ! (length (Split s sep) - Suc 0) = after_last sep s"
proof -
  have "Split s sep ! (length (Split s sep) - Suc 0) = last (Split s sep)"
    by (simp add: Split_def genSplit_nonempty last_conv_nth)
  also have "\<dots> = after_last sep s"
    by (simp add: Split_def genSplit_last after_last_no_sep)
  finally show ?thesis .
qed

lemma query_server_calls: "snd (query_server w u fqdn calls) = calls @ [u @ ''/domain/'' @ fqdn]"
  by (simp add: query_server_def Let_def split: sum.splits option.splits)

lemma query_server_not_invalid: "fst (query_server w u fqdn calls) \<noteq> Inl (InvalidDomain s)"
  by (simp add: query_server_def Let_def split: sum.splits option.splits)

lemma query_server_no_discovery_error:
  "fst (query_server w u fqdn calls) = Inl e \<Longrightarrow> \<not> is_discovery_error e"
  by (auto simp: query_server_def Let_def split: sum.splits option.splits if_splits)

lemma QueryRDAP_labels:
  "\<not> length (Split fqdn (CHR ''.'')) < 2 \<Longrightarrow>
   QueryRDAP w fqdn =
     (case select_server w (after_last (CHR ''.'') fqdn) [] of
        (rdapServerURL, calls) \<Rightarrow> query_server w rdapServerURL fqdn calls)"
  by (simp add: QueryRDAP_def Let_def Split_tld)

text \<open>
  Claim C3. For every string \<open>fqdn\<close>, \<open>QueryRDAP\<close> fails with the invalid-domain error
  exactly when \<open>fqdn\<close> has fewer than two labels, that is, when it holds no separator;
  then no request is made and no record is produced. Otherwise the top-level label it
  goes on with is the substring after the last separator.
\<close>

theorem invalid_domain_exactly_without_two_labels:
  "((\<exists>s. fst (QueryRDAP w fqdn) = Inl (InvalidDomain s)) = (length (Split fqdn (CHR ''.'')) < 2))
   \<and> ((length (Split fqdn (CHR ''.'')) < 2) = (CHR ''.'' \<notin> set fqdn))
   \<and> (length (Split fqdn (CHR ''.'')) < 2 \<longrightarrow> QueryRDAP w fqdn = (Inl (InvalidDomain fqdn), []))
   \<and> (\<not> length (Split fqdn (CHR ''.'')) < 2 \<longrightarrow>
        QueryRDAP w fqdn =
          (case select_server w (after_last (CHR ''.'') fqdn) [] of
             (rdapServerURL, calls) \<Rightarrow> query_server w rdapServerURL fqdn calls))"
proof (intro conjI)
  show "(\<exists>s. fst (QueryRDAP w fqdn) = Inl (InvalidDomain s)) = (length (Split fqdn (CHR ''.'')) < 2)"
  proof (cases "length (Split fqdn (CHR ''.'')) < 2")
    case True
    then show ?thesis by (simp add: QueryRDAP_def)
  next
    case False
    then show ?thesis
      by (simp add: QueryRDAP_labels query_server_not_invalid split: prod.splits)
  qed
  show "(length (Split fqdn (CHR ''.'')) < 2) = (CHR ''.'' \<notin> set fqdn)"
    by (rule Split_short)
  show "length (Split fqdn (CHR ''.'')) < 2 \<longrightarrow> QueryRDAP w fqdn = (Inl (InvalidDomain fqdn), [])"
    by (simp add: QueryRDAP_def)
  show "\<not> length (Split fqdn (CHR ''.'')) < 2 \<longrightarrow>
        QueryRDAP w fqdn =
          (case select_server w (after_last (CHR ''.'') fqdn) [] of
             (rdapServerURL, calls) \<Rightarrow> query_server w rdapServerURL fqdn calls)"
    by (simp add: QueryRDAP_labels)
qed

text \<open>The theorem at \<^verbatim>\<open>localhost\<close>, which has one label, and at
  \<^verbatim>\<open>www.example.com\<close>, whose top-level label is \<^verbatim>\<open>com\<close>.\<close>

theorem invalid_domain_exactly_without_two_labels_witness:
  "length (Split ''localhost'' (CHR ''.'')) < 2
   \<and> QueryRDAP (example_world (answer 200 ''services'') (answer 404 ''not found'')) ''localhost''
       = (Inl (InvalidDomain ''localhost''), [])
   \<and> \<not> length (Split ''www.example.com'' (CHR ''.'')) < 2
   \<and> after_last (CHR ''.'') ''www.example.com'' = ''com''
   \<and> QueryRDAP (example_world (answer 200 ''services'') (answer 404 ''not found'')) ''www.example.com''
       = (Inl (RDAPError ''Not Found''),
          [''https://data.iana.org/rdap/dns.json'',
           ''https://rdap.verisign.com/com/v1/domain/www.example.com''])"
  using invalid_domain_exactly_without_two_labels
          [of "example_world (answer 200 ''services'') (answer 404 ''not found'')" "''localhost''"]
        invalid_domain_exactly_without_two_labels
          [of "example_world (answer 200 ''services'') (answer 404 ''not found'')" "''www.example.com''"]
  by (simp add: Split_def after_last_def select_server_def getRDAPServerFromBootstrap_def
      example_world_def answer_def bootstrapURL_def StatusOK_def TrimSuffix_def HasSuffix_def
      query_server_def)

lemma as_string_Some: "as_string t = Some s \<Longrightarrow> t = JString s"
  by (cases t) simp_all

lemma tlds_loop_Some: "tlds_loop tlds service1 tld = Some u \<Longrightarrow> JString tld \<in> set tlds"
proof (induction tlds)
  case Nil
  then show ?case by simp
next
  case (Cons t rest)
  show ?case
  proof (cases "as_string t = Some tld")
    case True
    then show ?thesis using as_string_Some[OF True] by simp
  next
    case False
    then have "tlds_loop (t # rest) service1 tld = tlds_loop rest service1 tld"
      by (cases "as_string t") simp_all
    with Cons show ?thesis by simp
  qed
qed

lemma services_loop_no_match:
  "\<not> matching_entry services tld \<Longrightarrow> services_loop services tld = None"
proof (induction services)
  case Nil
  then show ?case by simp
next
  case (Cons service rest)
  from Cons.prems have rest: "\<not> matching_entry rest tld"
    and here: "\<not> (length service \<ge> 2 \<and>
                (case as_array (service ! 0) of
                   None \<Rightarrow> False
                 | Some tlds \<Rightarrow> JString tld \<in> set tlds))"
    by (simp_all add: matching_entry_def)
  have "services_loop (service # rest) tld = services_loop rest tld"
  proof (cases "length service \<ge> 2")
    case False
    then show ?thesis by simp
  next
    case True
    show ?thesis
    proof (cases "as_array (service ! 0)")
      case None
      with True show ?thesis by simp
    next
      case (Some tlds)
      with True here have "JString tld \<notin> set tlds" by simp
      then have "tlds_loop tlds (service ! 1) tld = None"
        using tlds_loop_Some[of tlds "service ! 1" tld] by (cases "tlds_loop tlds (service ! 1) tld") auto
      with True Some show ?thesis by simp
    qed
  qed
  with Cons.IH[OF rest] show ?case by simp
qed

lemma discovery_failure_error:
  assumes "discovery_failure w tld"
  shows "\<exists>e. getRDAPServerFromBootstrap w tld calls = (Inl e, calls @ [bootstrapURL])"
proof (cases "client_Get w bootstrapURL")
  case (Inl err)
  then show ?thesis by (simp add: getRDAPServerFromBootstrap_def)
next
  case (Inr resp)
  show ?thesis
  proof (cases "StatusCode resp = StatusOK")
    case False
    with Inr show ?thesis by (simp add: getRDAPServerFromBootstrap_def)
  next
    case True
    then have ok: "is_2xx (StatusCode resp)" by (simp add: is_2xx_def StatusOK_def)
    show ?thesis
    proof (cases "ReadErr resp")
      case (Some err)
      with Inr True show ?thesis by (simp add: getRDAPServerFromBootstrap_def)
    next
      case None
      with assms Inr ok have body:
        "(case Unmarshal_services w (Body resp) of
            None \<Rightarrow> True
          | Some services \<Rightarrow> \<not> matching_entry services tld)"
        by (simp add: discovery_failure_def)
      show ?thesis
      proof (cases "Unmarshal_services w (Body resp)")
        case None
        with Inr True \<open>ReadErr resp = None\<close> show ?thesis
          by (simp add: getRDAPServerFromBootstrap_def)
      next
        case (Some services)
        with body have "services_loop services tld = None"
          by (simp add: services_loop_no_match)
        with Inr True \<open>ReadErr resp = None\<close> Some show ?thesis
          by (simp add: getRDAPServerFromBootstrap_def)
      qed
    qed
  qed
qed

lemma discovery_failure_fallback:
  assumes "discovery_failure w tld"
  shows "select_server w tld calls = (getFallbackRDAPServer tld, calls @ [bootstrapURL])"
proof -
  from discovery_failure_error[OF assms] obtain e where
    "getRDAPServerFromBootstrap w tld calls = (Inl e, calls @ [bootstrapURL])" by blast
  then show ?thesis by (simp add: select_server_def)
qed

lemma query_server_success:
  assumes "client_Get w (u @ ''/domain/'' @ fqdn) = Inr resp" "StatusCode resp = StatusOK"
    "ReadErr resp = None" "Unmarshal_rdapDomain w (Body resp) = Some rd"
  shows "fst (query_server w u fqdn calls) = Inr (convertRDAPToWhoisInfo (time w) rd fqdn)"
  using assms by (simp add: query_server_def Let_def)

text \<open>
  Claim C4. When bootstrap discovery fails (a transport error, of the request or while
  the body is read, a status outside 200 to 299, a body that does not decode, or no
  matching entry for the label), \<open>QueryRDAP\<close> does not fail for that reason: it takes the
  endpoint of the static fallback table for the label in lower case, or the catch-all
  endpoint when the table has none, and proceeds to the record query at that endpoint,
  whose outcome is the result.
\<close>

theorem discovery_failure_falls_back:
  assumes "\<not> length (Split fqdn (CHR ''.'')) < 2"
    and "discovery_failure w (after_last (CHR ''.'') fqdn)"
  shows "QueryRDAP w fqdn
           = query_server w (getFallbackRDAPServer (after_last (CHR ''.'') fqdn)) fqdn [bootstrapURL]
       \<and> snd (QueryRDAP w fqdn)
           = [bootstrapURL, getFallbackRDAPServer (after_last (CHR ''.'') fqdn) @ ''/domain/'' @ fqdn]
       \<and> (\<forall>e. fst (QueryRDAP w fqdn) = Inl e \<longrightarrow> \<not> is_discovery_error e)
       \<and> (\<forall>resp rd.
             client_Get w (getFallbackRDAPServer (after_last (CHR ''.'') fqdn) @ ''/domain/'' @ fqdn)
               = Inr resp
             \<and> StatusCode resp = StatusOK \<and> ReadErr resp = None
             \<and> Unmarshal_rdapDomain w (Body resp) = Some rd \<longrightarrow>
             fst (QueryRDAP w fqdn) = Inr (convertRDAPToWhoisInfo (time w) rd fqdn))
       \<and> getFallbackRDAPServer (after_last (CHR ''.'') fqdn)
           = (case fallbackServers (ToLower (after_last (CHR ''.'') fqdn)) of
                Some server \<Rightarrow> server
              | None \<Rightarrow> ''https://rdap.org'')
       \<and> (\<forall>tld. ToLower tld = ToLower (after_last (CHR ''.'') fqdn) \<longrightarrow>
             getFallbackRDAPServer tld = getFallbackRDAPServer (after_last (CHR ''.'') fqdn))"
proof -
  let ?tld = "after_last (CHR ''.'') fqdn"
  have q: "QueryRDAP w fqdn = query_server w (getFallbackRDAPServer ?tld) fqdn [bootstrapURL]"
    using assms by (simp add: QueryRDAP_labels discovery_failure_fallback)
  have c: "snd (QueryRDAP w fqdn) = [bootstrapURL, getFallbackRDAPServer ?tld @ ''/domain/'' @ fqdn]"
    unfolding q by (simp add: query_server_calls)
  have e: "\<forall>e. fst (QueryRDAP w fqdn) = Inl e \<longrightarrow> \<not> is_discovery_error e"
    unfolding q using query_server_no_discovery_error by blast
  have s: "\<forall>resp rd.
             client_Get w (getFallbackRDAPServer ?tld @ ''/domain/'' @ fqdn) = Inr resp
             \<and> StatusCode resp = StatusOK \<and> ReadErr resp = None
             \<and> Unmarshal_rdapDomain w (Body resp) = Some rd \<longrightarrow>
             fst (QueryRDAP w fqdn) = Inr (convertRDAPToWhoisInfo (time w) rd fqdn)"
    unfolding q using query_server_success by blast
  have f: "getFallbackRDAPServer ?tld
           = (case fallbackServers (ToLower ?tld) of
                Some server \<Rightarrow> server
              | None \<Rightarrow> ''https://rdap.org'')"
    by (simp add: getFallbackRDAPServer_def)
  have i: "\<forall>tld. ToLower tld = ToLower ?tld \<longrightarrow>
             getFallbackRDAPServer tld = getFallbackRDAPServer ?tld"
    by (simp add: getFallbackRDAPServer_def)
  from q c e s f i show ?thesis by blast
qed

text \<open>The theorem at \<^verbatim>\<open>example.COM\<close>, once for each of the four failures, and at
  \<^verbatim>\<open>example.com\<close> for a bootstrap body that would decode and match but whose read
  ends in an error.\<close>

theorem discovery_failure_falls_back_witness:
  "(\<not> length (Split ''example.COM'' (CHR ''.'')) < 2
    \<and> discovery_failure (example_world (Inl (NetError ''timeout'')) (answer 200 ''domain''))
         (after_last (CHR ''.'') ''example.COM'')
    \<and> QueryRDAP (example_world (Inl (NetError ''timeout'')) (answer 200 ''domain'')) ''example.COM''
        = (Inr (convertRDAPToWhoisInfo utc_timelib example_response ''example.COM''),
           [''https://data.iana.org/rdap/dns.json'', ''https://rdap.org/domain/example.COM'']))
   \<and> (discovery_failure (example_world (answer 503 ''services'') (answer 200 ''domain''))
         (after_last (CHR ''.'') ''example.COM'')
    \<and> QueryRDAP (example_world (answer 503 ''services'') (answer 200 ''domain'')) ''example.COM''
        = (Inr (convertRDAPToWhoisInfo utc_timelib example_response ''example.COM''),
           [''https://data.iana.org/rdap/dns.json'', ''https://rdap.org/domain/example.COM'']))
   \<and> (discovery_failure (example_world (answer 200 ''<html>'') (answer 200 ''domain''))
         (after_last (CHR ''.'') ''example.COM'')
    \<and> QueryRDAP (example_world (answer 200 ''<html>'') (answer 200 ''domain'')) ''example.COM''
        = (Inr (convertRDAPToWhoisInfo utc_timelib example_response ''example.COM''),
           [''https://data.iana.org/rdap/dns.json'', ''https://rdap.org/domain/example.COM'']))
   \<and> (discovery_failure (example_world (answer 200 ''services'') (answer 404 ''not found''))
         (after_last (CHR ''.'') ''example.COM'')
    \<and> QueryRDAP (example_world (answer 200 ''services'') (answer 404 ''not found'')) ''example.COM''
        = (Inl (RDAPError ''Not Found''),
           [''https://data.iana.org/rdap/dns.json'', ''https://rdap.org/domain/example.COM'']))
   \<and> (\<not> length (Split ''example.com'' (CHR ''.'')) < 2
    \<and> matching_entry
         [[JArray [JString ''com'', JString ''net''],
           JArray [JString ''https://rdap.verisign.com/com/v1/'']]]
         (after_last (CHR ''.'') ''example.com'')
    \<and> discovery_failure
         (example_world
            (Inr \<lparr>StatusCode = 200, Body = ''services'',
                  ReadErr = Some (NetError ''connection reset'')\<rparr>)
            (answer 200 ''domain''))
         (after_last (CHR ''.'') ''example.com'')
    \<and> QueryRDAP
         (example_world
            (Inr \<lparr>StatusCode = 200, Body = ''services'',
                  ReadErr = Some (NetError ''connection reset'')\<rparr>)
            (answer 200 ''domain'')) ''example.com''
        = (Inr (convertRDAPToWhoisInfo utc_timelib example_response ''example.com''),
           [''https://data.iana.org/rdap/dns.json'', ''https://rdap.org/domain/example.com'']))"
proof -
  have l: "\<not> length (Split ''example.COM'' (CHR ''.'')) < 2"
    by (simp add: Split_def)
  have t: "after_last (CHR ''.'') ''example.COM'' = ''COM''"
    by (simp add: after_last_def)
  have f: "getFallbackRDAPServer ''COM'' = ''https://rdap.org''"
    by (simp add: getFallbackRDAPServer_def fallbackServers_def ToLower_def lower_byte_def)
  have d1: "discovery_failure (example_world (Inl (NetError ''timeout'')) (answer 200 ''domain'')) (after_last (CHR ''.'') ''example.COM'')"
    unfolding t by (simp add: discovery_failure_def example_world_def)
  have d2: "discovery_failure (example_world (answer 503 ''services'') (answer 200 ''domain'')) (after_last (CHR ''.'') ''example.COM'')"
    unfolding t by (simp add: discovery_failure_def example_world_def answer_def is_2xx_def)
  have d3: "discovery_failure (example_world (answer 200 ''<html>'') (answer 200 ''domain'')) (after_last (CHR ''.'') ''example.COM'')"
    unfolding t by (simp add: discovery_failure_def example_world_def answer_def is_2xx_def)
  have d4: "discovery_failure (example_world (answer 200 ''services'') (answer 404 ''not found'')) (after_last (CHR ''.'') ''example.COM'')"
    unfolding t by (simp add: discovery_failure_def example_world_def answer_def is_2xx_def matching_entry_def)
  note q = query_server_def example_world_def answer_def bootstrapURL_def StatusOK_def
  have e1: "query_server (example_world (Inl (NetError ''timeout'')) (answer 200 ''domain''))
              ''https://rdap.org'' ''example.COM'' [bootstrapURL]
            = (Inr (convertRDAPToWhoisInfo utc_timelib example_response ''example.COM''),
               [''https://data.iana.org/rdap/dns.json'', ''https://rdap.org/domain/example.COM''])"
    by (simp add: q)
  have e2: "query_server (example_world (answer 503 ''services'') (answer 200 ''domain''))
              ''https://rdap.org'' ''example.COM'' [bootstrapURL]
            = (Inr (convertRDAPToWhoisInfo utc_timelib example_response ''example.COM''),
               [''https://data.iana.org/rdap/dns.json'', ''https://rdap.org/domain/example.COM''])"
    by (simp add: q)
  have e3: "query_server (example_world (answer 200 ''<html>'') (answer 200 ''domain''))
              ''https://rdap.org'' ''example.COM'' [bootstrapURL]
            = (Inr (convertRDAPToWhoisInfo utc_timelib example_response ''example.COM''),
               [''https://data.iana.org/rdap/dns.json'', ''https://rdap.org/domain/example.COM''])"
    by (simp add: q)
  have e4: "query_server (example_world (answer 200 ''services'') (answer 404 ''not found''))
              ''https://rdap.org'' ''example.COM'' [bootstrapURL]
            = (Inl (RDAPError ''Not Found''),
               [''https://data.iana.org/rdap/dns.json'', ''https://rdap.org/domain/example.COM''])"
    by (simp add: q)
  have r1: "QueryRDAP (example_world (Inl (NetError ''timeout'')) (answer 200 ''domain'')) ''example.COM''
        = (Inr (convertRDAPToWhoisInfo utc_timelib example_response ''example.COM''),
           [''https://data.iana.org/rdap/dns.json'', ''https://rdap.org/domain/example.COM''])"
    using discovery_failure_falls_back[OF l d1, THEN conjunct1] unfolding t f e1 .
  have r2: "QueryRDAP (example_world (answer 503 ''services'') (answer 200 ''domain'')) ''example.COM''
        = (Inr (convertRDAPToWhoisInfo utc_timelib example_response ''example.COM''),
           [''https://data.iana.org/rdap/dns.json'', ''https://rdap.org/domain/example.COM''])"
    using discovery_failure_falls_back[OF l d2, THEN conjunct1] unfolding t f e2 .
  have r3: "QueryRDAP (example_world (answer 200 ''<html>'') (answer 200 ''domain'')) ''example.COM''
        = (Inr (convertRDAPToWhoisInfo utc_timelib example_response ''example.COM''),
           [''https://data.iana.org/rdap/dns.json'', ''https://rdap.org/domain/example.COM''])"
    using discovery_failure_falls_back[OF l d3, THEN conjunct1] unfolding t f e3 .
  have r4: "QueryRDAP (example_world (answer 200 ''services'') (answer 404 ''not found'')) ''example.COM''
        = (Inl (RDAPError ''Not Found''),
           [''https://data.iana.org/rdap/dns.json'', ''https://rdap.org/domain/example.COM''])"
    using discovery_failure_falls_back[OF l d4, THEN conjunct1] unfolding t f e4 .
  let ?w5 = "example_world
            (Inr \<lparr>StatusCode = 200, Body = ''services'',
                  ReadErr = Some (NetError ''connection reset'')\<rparr>)
            (answer 200 ''domain'')"
  have l5: "\<not> length (Split ''example.com'' (CHR ''.'')) < 2"
    by (simp add: Split_def)
  have t5: "after_last (CHR ''.'') ''example.com'' = ''com''"
    by (simp add: after_last_def)
  have f5: "getFallbackRDAPServer ''com'' = ''https://rdap.org''"
    by (simp add: getFallbackRDAPServer_def fallbackServers_def ToLower_def lower_byte_def)
  have m5: "matching_entry
         [[JArray [JString ''com'', JString ''net''],
           JArray [JString ''https://rdap.verisign.com/com/v1/'']]]
         (after_last (CHR ''.'') ''example.com'')"
    unfolding t5 by (simp add: matching_entry_def)
  have d5: "discovery_failure ?w5 (after_last (CHR ''.'') ''example.com'')"
    unfolding t5 by (simp add: discovery_failure_def example_world_def)
  have e5: "query_server ?w5 ''https://rdap.org'' ''example.com'' [bootstrapURL]
            = (Inr (convertRDAPToWhoisInfo utc_timelib example_response ''example.com''),
               [''https://data.iana.org/rdap/dns.json'', ''https://rdap.org/domain/example.com''])"
    by (simp add: q)
  have r5: "QueryRDAP ?w5 ''example.com''
        = (Inr (convertRDAPToWhoisInfo utc_timelib example_response ''example.com''),
           [''https://data.iana.org/rdap/dns.json'', ''https://rdap.org/domain/example.com''])"
    using discovery_failure_falls_back[OF l5 d5, THEN conjunct1] unfolding t5 f5 e5 .
  show ?thesis
    using l d1 d2 d3 d4 r1 r2 r3 r4 l5 m5 d5 r5 by blast
qed

text \<open>
  Claim C5. When the record query is answered with a status outside 200 to 299,
  \<open>QueryRDAP\<close> fails. The error carries the title of the error payload when the body
  decodes to one with a non-empty title, and the status code otherwise.
\<close>

theorem record_query_error_status:
  assumes "\<not> length (Split fqdn (CHR ''.'')) < 2"
    and "client_Get w (fst (select_server w (after_last (CHR ''.'') fqdn) []) @ ''/domain/'' @ fqdn)
           = Inr resp"
    and "\<not> is_2xx (StatusCode resp)"
  shows "(\<exists>e. fst (QueryRDAP w fqdn) = Inl e)
       \<and> (\<forall>rdapErr. Unmarshal_rdapError w (Body resp) = Some rdapErr \<and> Title rdapErr \<noteq> '''' \<longrightarrow>
             fst (QueryRDAP w fqdn) = Inl (RDAPError (Title rdapErr)))
       \<and> ((\<forall>rdapErr. Unmarshal_rdapError w (Body resp) = Some rdapErr \<longrightarrow> Title rdapErr = '''') \<longrightarrow>
             fst (QueryRDAP w fqdn) = Inl (QueryStatus (StatusCode resp)))"
proof -
  obtain u calls where s: "select_server w (after_last (CHR ''.'') fqdn) [] = (u, calls)"
    by (cases "select_server w (after_last (CHR ''.'') fqdn) []")
  have q: "QueryRDAP w fqdn = query_server w u fqdn calls"
    using assms(1) s by (simp add: QueryRDAP_labels)
  from assms(2) s have g: "client_Get w (u @ ''/domain/'' @ fqdn) = Inr resp" by simp
  from assms(3) have n: "StatusCode resp \<noteq> StatusOK" by (auto simp: is_2xx_def StatusOK_def)
  show ?thesis
  proof (cases "Unmarshal_rdapError w (Body resp)")
    case None
    with g n show ?thesis unfolding q by (simp add: query_server_def Let_def)
  next
    case (Some p)
    with g n show ?thesis unfolding q by (simp add: query_server_def Let_def)
  qed
qed

text \<open>The theorem at a 404 answer with an error payload and at a 503 answer without
  one.\<close>

theorem record_query_error_status_witness:
  "(\<not> length (Split ''www.example.com'' (CHR ''.'')) < 2
    \<and> \<not> is_2xx 404
    \<and> fst (QueryRDAP (example_world (answer 200 ''services'') (answer 404 ''not found''))
             ''www.example.com'') = Inl (RDAPError ''Not Found''))
   \<and> (\<not> is_2xx 503
    \<and> fst (QueryRDAP (example_world (answer 200 ''services'') (answer 503 ''<html>''))
             ''www.example.com'') = Inl (QueryStatus 503))"
proof -
  have l: "\<not> length (Split ''www.example.com'' (CHR ''.'')) < 2"
    by (simp add: Split_def)
  have t: "after_last (CHR ''.'') ''www.example.com'' = ''com''"
    by (simp add: after_last_def)
  have s: "fst (select_server (example_world (answer 200 ''services'') r) ''com'' [])
             = ''https://rdap.verisign.com/com/v1''" for r
    by (simp add: select_server_def getRDAPServerFromBootstrap_def example_world_def answer_def
        bootstrapURL_def StatusOK_def TrimSuffix_def HasSuffix_def)
  have g: "client_Get (example_world (answer 200 ''services'') (answer c b))
             (fst (select_server (example_world (answer 200 ''services'') (answer c b))
                    (after_last (CHR ''.'') ''www.example.com'') []) @ ''/domain/'' @ ''www.example.com'')
           = Inr \<lparr>StatusCode = c, Body = b, ReadErr = None\<rparr>" for c b
    unfolding t s by (simp add: example_world_def answer_def bootstrapURL_def)
  have n1: "\<not> is_2xx (StatusCode \<lparr>StatusCode = 404, Body = ''not found'', ReadErr = None\<rparr>)"
    by (simp add: is_2xx_def)
  have n2: "\<not> is_2xx (StatusCode \<lparr>StatusCode = 503, Body = ''<html>'', ReadErr = None\<rparr>)"
    by (simp add: is_2xx_def)
  show ?thesis
    using record_query_error_status[OF l g n1] record_query_error_status[OF l g n2] l
    by (simp add: example_world_def is_2xx_def)
qed

section \<open>The registrar\<close>

lemma roles_loop_member: "roles_loop roles = (''registrar'' \<in> set roles)"
  by (induction roles) auto

lemma entities_loop_first:
  "entities_loop entities = map_option registrar_of_entity (first_registrar entities)"
  by (induction entities) (simp_all add: first_registrar_def roles_loop_member)

lemma nonempty_string_Some: "nonempty_string v = Some s \<Longrightarrow> s \<noteq> ''''"
  by (auto simp: nonempty_string_def split: option.splits if_splits)

lemma first_field_nonempty: "first_field ty items = Some s \<Longrightarrow> s \<noteq> ''''"
  by (induction items)
     (auto simp: vcard_field_def dest: nonempty_string_Some split: option.splits if_splits)

lemma vcard_loop_ID:
  "whoisparser_Contact.ID (vcard_loop items r) = whoisparser_Contact.ID r"
  by (induction items arbitrary: r) (auto split: option.splits)

lemma vcard_loop_skip:
  assumes "vcard_field ''fn'' item = None" "vcard_field ''org'' item = None"
  shows "vcard_loop (item # rest) r = vcard_loop rest r"
proof (cases "as_array item")
  case None
  then show ?thesis by simp
next
  case (Some a)
  show ?thesis
  proof (cases "length a \<ge> 4")
    case False
    with Some show ?thesis by simp
  next
    case long: True
    show ?thesis
    proof (cases "as_string (a ! 0)")
      case None
      with Some long show ?thesis by simp
    next
      case ty: (Some itemType)
      have fn: "itemType = ''fn'' \<Longrightarrow> nonempty_string (a ! 3) = None"
        using assms(1) Some long ty by (simp add: vcard_field_def)
      have org: "itemType = ''org'' \<Longrightarrow> nonempty_string (a ! 3) = None"
        using assms(2) Some long ty by (simp add: vcard_field_def)
      show ?thesis using Some long ty fn org by simp
    qed
  qed
qed

lemma vcard_loop_fn:
  assumes "vcard_field ''fn'' item = Some name"
  shows "vcard_loop (item # rest) r = r\<lparr>whoisparser_Contact.Name := name\<rparr>"
  using assms
  by (auto simp: vcard_field_def split: option.splits if_splits)

lemma vcard_loop_org:
  assumes "vcard_field ''org'' item = Some org"
  shows "vcard_loop (item # rest) r =
           vcard_loop rest
             (if whoisparser_Contact.Name r = ''''
              then r\<lparr>Organization := org, whoisparser_Contact.Name := org\<rparr> else r)"
  using assms
  by (auto simp: vcard_field_def split: option.splits if_splits)

lemma vcard_field_nonempty: "vcard_field ty item = Some s \<Longrightarrow> s \<noteq> ''''"
  by (auto simp: vcard_field_def dest: nonempty_string_Some split: option.splits if_splits)

lemma vcard_loop_Name:
  "whoisparser_Contact.Name (vcard_loop items r) =
     (case first_field ''fn'' items of
        Some name \<Rightarrow> name
      | None \<Rightarrow>
          if whoisparser_Contact.Name r \<noteq> '''' then whoisparser_Contact.Name r
          else (case first_field ''org'' items of Some org \<Rightarrow> org | None \<Rightarrow> ''''))"
proof (induction items arbitrary: r)
  case Nil
  then show ?case by simp
next
  case (Cons item rest)
  show ?case
  proof (cases "vcard_field ''fn'' item")
    case (Some name)
    then show ?thesis using vcard_loop_fn[OF Some, of rest r] by (simp del: vcard_loop.simps)
  next
    case None
    show ?thesis
    proof (cases "vcard_field ''org'' item")
      case n: None
      have "vcard_loop (item # rest) r = vcard_loop rest r"
        using None n by (rule vcard_loop_skip)
      then show ?thesis using None n Cons.IH[of r]
        by (simp del: vcard_loop.simps split: option.splits)
    next
      case (Some org)
      then have ne: "org \<noteq> ''''" by (rule vcard_field_nonempty)
      show ?thesis
      proof (cases "whoisparser_Contact.Name r = ''''")
        case True
        have "vcard_loop (item # rest) r
                = vcard_loop rest (r\<lparr>Organization := org, whoisparser_Contact.Name := org\<rparr>)"
          using vcard_loop_org[OF Some, of rest r] True by (simp del: vcard_loop.simps)
        then show ?thesis
          using None Some ne True
            Cons.IH[of "r\<lparr>Organization := org, whoisparser_Contact.Name := org\<rparr>"]
          by (simp del: vcard_loop.simps split: option.splits)
      next
        case False
        have "vcard_loop (item # rest) r = vcard_loop rest r"
          using vcard_loop_org[OF Some, of rest r] False by (simp del: vcard_loop.simps)
        then show ?thesis using None Some False Cons.IH[of r]
          by (simp del: vcard_loop.simps split: option.splits)
      qed
    qed
  qed
qed

lemma registrar_of_entity_loop:
  "registrar_of_entity e =
     (let r = vcard_loop (vcard_items e)
                \<lparr>whoisparser_Contact.ID = rdapEntity.Handle e, Name = '''', Organization = ''''\<rparr>
      in if whoisparser_Contact.Name r = '''' \<and> rdapEntity.Handle e \<noteq> ''''
         then r\<lparr>whoisparser_Contact.Name := rdapEntity.Handle e\<rparr> else r)"
  by (simp add: registrar_of_entity_def vcard_items_def Let_def split: option.splits)

lemma registrar_of_entity_ID:
  "whoisparser_Contact.ID (registrar_of_entity e) = rdapEntity.Handle e"
  by (simp add: registrar_of_entity_loop Let_def vcard_loop_ID)

lemma registrar_of_entity_Name:
  "whoisparser_Contact.Name (registrar_of_entity e) = display_name e"
proof (cases "first_field ''fn'' (vcard_items e)")
  case (Some name)
  then have "name \<noteq> ''''" by (rule first_field_nonempty)
  with Some show ?thesis
    by (simp add: registrar_of_entity_loop Let_def vcard_loop_Name display_name_def)
next
  case None
  show ?thesis
  proof (cases "first_field ''org'' (vcard_items e)")
    case (Some org)
    then have "org \<noteq> ''''" by (rule first_field_nonempty)
    with None Some show ?thesis
      by (simp add: registrar_of_entity_loop Let_def vcard_loop_Name display_name_def)
  next
    case n: None
    with None show ?thesis
      by (simp add: registrar_of_entity_loop Let_def vcard_loop_Name display_name_def)
  qed
qed

lemma convert_Registrar:
  "Registrar (convertRDAPToWhoisInfo lib rdap fqdn) = entities_loop (Entities rdap)"
  by (simp add: convertRDAPToWhoisInfo_def Let_def)

lemma first_registrar_append:
  "''registrar'' \<in> set (Roles e) \<Longrightarrow>
   first_registrar (pre @ e # post) = first_registrar (pre @ [e])"
  by (induction pre) (simp_all add: first_registrar_def)

text \<open>
  Claim C2. For every RDAP response, the registrar of the canonical record comes from
  the first entity, in response order, whose role list contains \<^verbatim>\<open>registrar\<close>, and
  from no other: there is none when no entity has the role. Its identifier is the
  handle of that entity and its name is the full name of the contact card, else the
  organization of the card, else the handle. Entities after the first registrar entity
  do not change it.
\<close>

theorem first_registrar_entity_names_registrar:
  "(case first_registrar (Entities rdap) of
      None \<Rightarrow> Registrar (convertRDAPToWhoisInfo lib rdap fqdn) = None
    | Some e \<Rightarrow>
        (\<exists>c. Registrar (convertRDAPToWhoisInfo lib rdap fqdn) = Some c
            \<and> whoisparser_Contact.ID c = rdapEntity.Handle e
            \<and> whoisparser_Contact.Name c = display_name e))
   \<and> (''registrar'' \<in> set (Roles e') \<longrightarrow>
        Registrar (convertRDAPToWhoisInfo lib (rdap\<lparr>Entities := pre @ e' # post\<rparr>) fqdn)
          = Registrar (convertRDAPToWhoisInfo lib (rdap\<lparr>Entities := pre @ [e']\<rparr>) fqdn))"
proof
  show "case first_registrar (Entities rdap) of
      None \<Rightarrow> Registrar (convertRDAPToWhoisInfo lib rdap fqdn) = None
    | Some e \<Rightarrow>
        (\<exists>c. Registrar (convertRDAPToWhoisInfo lib rdap fqdn) = Some c
            \<and> whoisparser_Contact.ID c = rdapEntity.Handle e
            \<and> whoisparser_Contact.Name c = display_name e)"
    by (simp add: convert_Registrar entities_loop_first registrar_of_entity_ID
        registrar_of_entity_Name split: option.splits)
  show "''registrar'' \<in> set (Roles e') \<longrightarrow>
        Registrar (convertRDAPToWhoisInfo lib (rdap\<lparr>Entities := pre @ e' # post\<rparr>) fqdn)
          = Registrar (convertRDAPToWhoisInfo lib (rdap\<lparr>Entities := pre @ [e']\<rparr>) fqdn)"
  proof
    assume "''registrar'' \<in> set (Roles e')"
    then have "first_registrar (pre @ e' # post) = first_registrar (pre @ [e'])"
      by (rule first_registrar_append)
    then show "Registrar (convertRDAPToWhoisInfo lib (rdap\<lparr>Entities := pre @ e' # post\<rparr>) fqdn)
          = Registrar (convertRDAPToWhoisInfo lib (rdap\<lparr>Entities := pre @ [e']\<rparr>) fqdn)"
      by (simp add: convert_Registrar entities_loop_first)
  qed
qed


text \<open>The theorem at the example response, whose second entity is the first registrar
  and whose third entity is a registrar too.\<close>

theorem first_registrar_entity_names_registrar_witness:
  "Registrar (convertRDAPToWhoisInfo utc_timelib example_response ''example.com'')
     = Some \<lparr>whoisparser_Contact.ID = ''376'', Name = ''Internet Assigned Numbers Authority'',
             Organization = ''RESERVED''\<rparr>
   \<and> map_option rdapEntity.Handle (first_registrar (Entities example_response)) = Some ''376''
   \<and> Registrar (convertRDAPToWhoisInfo utc_timelib
        (example_response\<lparr>Entities := take 2 (Entities example_response)\<rparr>) ''example.com'')
     = Registrar (convertRDAPToWhoisInfo utc_timelib example_response ''example.com'')"
  using first_registrar_entity_names_registrar
    [where rdap = example_response and lib = utc_timelib and fqdn = "''example.com''"
       and e' = "Entities example_response ! 1" and pre = "take 1 (Entities example_response)"
       and post = "drop 2 (Entities example_response)"]
  by (simp add: convert_Registrar example_response_def first_registrar_def registrar_of_entity_def
      nonempty_string_def)

section \<open>Events\<close>

lemma events_for_Cons:
  "events_for lib actions (e # evs) =
     (if EventAction e \<in> set actions \<and> event_time lib e \<noteq> None
      then e # events_for lib actions evs else events_for lib actions evs)"
  by (simp add: events_for_def)

lemma events_for_append:
  "events_for lib actions (xs @ ys) = events_for lib actions xs @ events_for lib actions ys"
  by (simp add: events_for_def)

lemma events_for_time: "e \<in> set (events_for lib actions evs) \<Longrightarrow> event_time lib e \<noteq> None"
  by (simp add: events_for_def)

lemma last_occurrence_alt:
  "last_occurrence lib actions evs =
     (if events_for lib actions evs = [] then None
      else event_time lib (last (events_for lib actions evs)))"
  by (simp add: last_occurrence_def split: list.splits)

lemma last_occurrence_None:
  "(last_occurrence lib actions evs = None) = (events_for lib actions evs = [])"
proof (cases "events_for lib actions evs = []")
  case True
  then show ?thesis by (simp add: last_occurrence_alt)
next
  case False
  then have "last (events_for lib actions evs) \<in> set (events_for lib actions evs)"
    by (rule last_in_set)
  then have "event_time lib (last (events_for lib actions evs)) \<noteq> None"
    by (rule events_for_time)
  with False show ?thesis by (simp add: last_occurrence_alt)
qed

lemma last_occurrence_Cons:
  "last_occurrence lib actions (e # evs) =
     (case last_occurrence lib actions evs of
        Some t \<Rightarrow> Some t
      | None \<Rightarrow> if EventAction e \<in> set actions then event_time lib e else None)"
proof (cases "events_for lib actions evs = []")
  case True
  then have "last_occurrence lib actions evs = None" by (simp add: last_occurrence_None)
  with True show ?thesis by (auto simp: last_occurrence_alt events_for_Cons)
next
  case False
  then have n: "last_occurrence lib actions evs \<noteq> None" by (simp add: last_occurrence_None)
  have "last_occurrence lib actions (e # evs) = last_occurrence lib actions evs"
    using False by (simp add: last_occurrence_alt events_for_Cons)
  with n show ?thesis by (auto split: option.splits)
qed

lemma events_loop_step:
  "events_loop lib (e # evs) d =
     events_loop lib evs
       (case event_time lib e of
          None \<Rightarrow> d
        | Some eventTime \<Rightarrow>
            if EventAction e = ''registration'' then
              d\<lparr>CreatedDate := Format lib eventTime RFC3339, CreatedDateInTime := Some eventTime\<rparr>
            else if EventAction e = ''expiration'' then
              d\<lparr>ExpirationDate := Format lib eventTime RFC3339,
                ExpirationDateInTime := Some eventTime\<rparr>
            else if EventAction e = ''last changed'' \<or> EventAction e = ''last update'' then
              d\<lparr>UpdatedDate := Format lib eventTime RFC3339, UpdatedDateInTime := Some eventTime\<rparr>
            else d)"
  by (simp add: event_time_def split: option.splits)

lemma events_loop_append:
  "events_loop lib (xs @ ys) d = events_loop lib ys (events_loop lib xs d)"
  by (induction xs arbitrary: d) (simp_all split: option.splits)

lemma events_loop_skip:
  "event_time lib e = None \<Longrightarrow> events_loop lib (pre @ e # post) d = events_loop lib (pre @ post) d"
  by (simp add: events_loop_append events_loop_step del: events_loop.simps)

lemma events_loop_expiration_time:
  "ExpirationDateInTime (events_loop lib evs d) =
     (case last_occurrence lib [''expiration''] evs of
        None \<Rightarrow> ExpirationDateInTime d | Some t \<Rightarrow> Some t)"
proof (induction evs arbitrary: d)
  case Nil
  then show ?case by (simp add: last_occurrence_def events_for_def)
next
  case (Cons e evs)
  show ?case
    by (simp add: events_loop_step last_occurrence_Cons Cons.IH del: events_loop.simps
        split: option.splits)
qed

lemma events_loop_expiration_text:
  "ExpirationDate (events_loop lib evs d) =
     (case last_occurrence lib [''expiration''] evs of
        None \<Rightarrow> ExpirationDate d | Some t \<Rightarrow> Format lib t RFC3339)"
proof (induction evs arbitrary: d)
  case Nil
  then show ?case by (simp add: last_occurrence_def events_for_def)
next
  case (Cons e evs)
  show ?case
    by (simp add: events_loop_step last_occurrence_Cons Cons.IH del: events_loop.simps
        split: option.splits)
qed

lemma events_loop_registration_time:
  "CreatedDateInTime (events_loop lib evs d) =
     (case last_occurrence lib [''registration''] evs of
        None \<Rightarrow> CreatedDateInTime d | Some t \<Rightarrow> Some t)"
proof (induction evs arbitrary: d)
  case Nil
  then show ?case by (simp add: last_occurrence_def events_for_def)
next
  case (Cons e evs)
  show ?case
    by (simp add: events_loop_step last_occurrence_Cons Cons.IH del: events_loop.simps
        split: option.splits)
qed

lemma events_loop_registration_text:
  "CreatedDate (events_loop lib evs d) =
     (case last_occurrence lib [''registration''] evs of
        None \<Rightarrow> CreatedDate d | Some t \<Rightarrow> Format lib t RFC3339)"
proof (induction evs arbitrary: d)
  case Nil
  then show ?case by (simp add: last_occurrence_def events_for_def)
next
  case (Cons e evs)
  show ?case
    by (simp add: events_loop_step last_occurrence_Cons Cons.IH del: events_loop.simps
        split: option.splits)
qed

lemma events_loop_update_time:
  "UpdatedDateInTime (events_loop lib evs d) =
     (case last_occurrence lib [''last changed'', ''last update''] evs of
        None \<Rightarrow> UpdatedDateInTime d | Some t \<Rightarrow> Some t)"
proof (induction evs arbitrary: d)
  case Nil
  then show ?case by (simp add: last_occurrence_def events_for_def)
next
  case (Cons e evs)
  show ?case
    by (simp add: events_loop_step last_occurrence_Cons Cons.IH del: events_loop.simps
        split: option.splits)
qed

lemma events_loop_update_text:
  "UpdatedDate (events_loop lib evs d) =
     (case last_occurrence lib [''last changed'', ''last update''] evs of
        None \<Rightarrow> UpdatedDate d | Some t \<Rightarrow> Format lib t RFC3339)"
proof (induction evs arbitrary: d)
  case Nil
  then show ?case by (simp add: last_occurrence_def events_for_def)
next
  case (Cons e evs)
  show ?case
    by (simp add: events_loop_step last_occurrence_Cons Cons.IH del: events_loop.simps
        split: option.splits)
qed

lemma convert_Domain:
  "WhoisInfo.Domain (convertRDAPToWhoisInfo lib rdap fqdn) =
     Some (events_loop lib (Events rdap)
       \<lparr>whoisparser_Domain.ID = rdapDomain.Handle rdap, Domain = fqdn,
        Status = rdapDomain.Status rdap,
        NameServers = nameservers_loop (Nameservers rdap) [],
        CreatedDate = '''', CreatedDateInTime = None,
        UpdatedDate = '''', UpdatedDateInTime = None,
        ExpirationDate = '''', ExpirationDateInTime = None\<rparr>)"
  by (simp add: convertRDAPToWhoisInfo_def Let_def)

lemma date_text_case:
  "date_text lib t = (case t of None \<Rightarrow> '''' | Some eventTime \<Rightarrow> Format lib eventTime RFC3339)"
  by (simp add: date_text_def)

text \<open>
  Claim C1, as amended. For every RDAP response, the converter maps the action
  \<^verbatim>\<open>registration\<close> to the creation date, \<^verbatim>\<open>expiration\<close> to the expiration date,
  and \<^verbatim>\<open>last changed\<close> or \<^verbatim>\<open>last update\<close> to the update date. When two or more
  parseable events carry the same mapped action, the last of them in response order
  determines the field: the switch assigns on every parseable event, so a field already
  set is overwritten by a later parseable event of the same mapped action. A field with
  no parseable event stays absent, and the text of each date field is the RFC3339 form
  of its instant.
\<close>

theorem last_occurrence_sets_date_fields:
  "\<exists>d. WhoisInfo.Domain (convertRDAPToWhoisInfo lib rdap fqdn) = Some d
     \<and> CreatedDateInTime d = last_occurrence lib [''registration''] (Events rdap)
     \<and> ExpirationDateInTime d = last_occurrence lib [''expiration''] (Events rdap)
     \<and> UpdatedDateInTime d = last_occurrence lib [''last changed'', ''last update''] (Events rdap)
     \<and> CreatedDate d = date_text lib (last_occurrence lib [''registration''] (Events rdap))
     \<and> ExpirationDate d = date_text lib (last_occurrence lib [''expiration''] (Events rdap))
     \<and> UpdatedDate d
         = date_text lib (last_occurrence lib [''last changed'', ''last update''] (Events rdap))"
  unfolding convert_Domain
  by (simp add: events_loop_registration_time events_loop_registration_text
      events_loop_expiration_time events_loop_expiration_text
      events_loop_update_time events_loop_update_text date_text_case
      split: option.splits)

text \<open>
  Claim C1 as it was stated says that the first occurrence wins. The example response
  holds two expiration events, for 15 January 2025 and for 15 January 2026 in that
  order: the record's expiration date is that of the second, not that of the first.
\<close>

theorem first_occurrence_does_not_win_counterexample:
  "map_option ExpirationDateInTime
     (WhoisInfo.Domain (convertRDAPToWhoisInfo utc_timelib example_response ''example.com''))
     = Some (Some \<lparr>unixNano = 1768435200000000000, zoneOffset = 0\<rparr>)
   \<and> map_option ExpirationDate
     (WhoisInfo.Domain (convertRDAPToWhoisInfo utc_timelib example_response ''example.com''))
     = Some ''2026-01-15T00:00:00Z''
   \<and> first_occurrence utc_timelib [''expiration''] (Events example_response)
     = Some \<lparr>unixNano = 1736899200000000000, zoneOffset = 0\<rparr>"
  by code_simp

text \<open>The amended statement at the example response.\<close>

theorem last_occurrence_sets_date_fields_witness:
  "map_option ExpirationDateInTime
     (WhoisInfo.Domain (convertRDAPToWhoisInfo utc_timelib example_response ''example.com''))
     = Some (last_occurrence utc_timelib [''expiration''] (Events example_response))
   \<and> last_occurrence utc_timelib [''expiration''] (Events example_response)
     = Some \<lparr>unixNano = 1768435200000000000, zoneOffset = 0\<rparr>
   \<and> last_occurrence utc_timelib [''last changed'', ''last update''] (Events example_response)
     = Some \<lparr>unixNano = 1725192000000000000, zoneOffset = 0\<rparr>
   \<and> last_occurrence utc_timelib [''registration''] (Events example_response) = None"
proof -
  obtain d where d: "WhoisInfo.Domain (convertRDAPToWhoisInfo utc_timelib example_response ''example.com'') = Some d"
    and e: "ExpirationDateInTime d = last_occurrence utc_timelib [''expiration''] (Events example_response)"
    using last_occurrence_sets_date_fields[of utc_timelib example_response "''example.com''"]
    by blast
  have 1: "last_occurrence utc_timelib [''expiration''] (Events example_response)
     = Some \<lparr>unixNano = 1768435200000000000, zoneOffset = 0\<rparr>" by code_simp
  have 2: "last_occurrence utc_timelib [''last changed'', ''last update''] (Events example_response)
     = Some \<lparr>unixNano = 1725192000000000000, zoneOffset = 0\<rparr>" by code_simp
  have 3: "last_occurrence utc_timelib [''registration''] (Events example_response) = None"
    by code_simp
  from d e 1 2 3 show ?thesis by simp
qed

lemma event_time_unparseable:
  "Parse lib RFC3339 (EventDate e) = None \<Longrightarrow>
   Parse lib ''2006-01-02T15:04:05Z'' (EventDate e) = None \<Longrightarrow> event_time lib e = None"
  by (simp add: event_time_def parse_event_date_def)

lemma convert_skip:
  assumes "event_time lib e = None"
  shows "convertRDAPToWhoisInfo lib (rdap\<lparr>Events := pre @ e # post\<rparr>) fqdn
         = convertRDAPToWhoisInfo lib (rdap\<lparr>Events := pre @ post\<rparr>) fqdn"
  using events_loop_skip[OF assms]
  by (simp add: convertRDAPToWhoisInfo_def Let_def del: events_loop.simps)

lemma last_occurrence_last_event:
  assumes "EventAction e \<in> set actions" "event_time lib e = Some t"
    "events_for lib actions post = []"
  shows "last_occurrence lib actions (pre @ e # post) = Some t"
proof -
  have "events_for lib actions (pre @ e # post) = events_for lib actions pre @ [e]"
    using assms by (simp add: events_for_append events_for_Cons)
  then show ?thesis using assms(2) by (simp add: last_occurrence_alt)
qed

text \<open>
  Claim C7, as amended. Normalization never fails: the converter always returns a
  record. An event whose date parses under neither layout is skipped, and the record is
  the one of the response without that event. An expiration event dated
  \<^verbatim>\<open>2025-01-15T00:00:00Z\<close> that no later parseable expiration event follows makes
  the expiration date the instant the date parses to. A response without a parseable
  expiration event gives a record without an expiration date, and the resolver returns
  that record, not an error.
\<close>

theorem normalization_never_fails:
  "(\<exists>d. WhoisInfo.Domain (convertRDAPToWhoisInfo lib rdap fqdn) = Some d)
   \<and> (Parse lib RFC3339 (EventDate e) = None
        \<and> Parse lib ''2006-01-02T15:04:05Z'' (EventDate e) = None \<longrightarrow>
        convertRDAPToWhoisInfo lib (rdap\<lparr>Events := pre @ e # post\<rparr>) fqdn
          = convertRDAPToWhoisInfo lib (rdap\<lparr>Events := pre @ post\<rparr>) fqdn)
   \<and> (parse_event_date lib ''2025-01-15T00:00:00Z'' = Some t
        \<and> events_for lib [''expiration''] post = [] \<longrightarrow>
        map_option ExpirationDateInTime
          (WhoisInfo.Domain (convertRDAPToWhoisInfo lib
             (rdap\<lparr>Events := pre @ \<lparr>EventAction = ''expiration'',
                                       EventDate = ''2025-01-15T00:00:00Z''\<rparr> # post\<rparr>) fqdn))
          = Some (Some t))
   \<and> (events_for lib [''expiration''] (Events rdap) = [] \<longrightarrow>
        (\<exists>d. WhoisInfo.Domain (convertRDAPToWhoisInfo lib rdap fqdn) = Some d
            \<and> ExpirationDateInTime d = None \<and> ExpirationDate d = ''''))
   \<and> (client_Get w (u @ ''/domain/'' @ fqdn) = Inr resp \<and> StatusCode resp = StatusOK
        \<and> ReadErr resp = None \<and> Unmarshal_rdapDomain w (Body resp) = Some rdap \<longrightarrow>
        fst (query_server w u fqdn calls) = Inr (convertRDAPToWhoisInfo (time w) rdap fqdn))"
proof (intro conjI impI)
  show "\<exists>d. WhoisInfo.Domain (convertRDAPToWhoisInfo lib rdap fqdn) = Some d"
    by (simp add: convert_Domain)
next
  assume "Parse lib RFC3339 (EventDate e) = None
        \<and> Parse lib ''2006-01-02T15:04:05Z'' (EventDate e) = None"
  then have "event_time lib e = None" by (simp add: event_time_unparseable)
  then show "convertRDAPToWhoisInfo lib (rdap\<lparr>Events := pre @ e # post\<rparr>) fqdn
          = convertRDAPToWhoisInfo lib (rdap\<lparr>Events := pre @ post\<rparr>) fqdn"
    by (rule convert_skip)
next
  let ?e = "\<lparr>EventAction = ''expiration'', EventDate = ''2025-01-15T00:00:00Z''\<rparr>"
  assume a: "parse_event_date lib ''2025-01-15T00:00:00Z'' = Some t
        \<and> events_for lib [''expiration''] post = []"
  then have "event_time lib ?e = Some t" by (simp add: event_time_def)
  then have "last_occurrence lib [''expiration''] (pre @ ?e # post) = Some t"
    using a by (intro last_occurrence_last_event) simp_all
  then show "map_option ExpirationDateInTime
          (WhoisInfo.Domain (convertRDAPToWhoisInfo lib (rdap\<lparr>Events := pre @ ?e # post\<rparr>) fqdn))
          = Some (Some t)"
    by (simp add: convert_Domain events_loop_expiration_time del: events_loop.simps)
next
  assume "events_for lib [''expiration''] (Events rdap) = []"
  then have "last_occurrence lib [''expiration''] (Events rdap) = None"
    by (simp add: last_occurrence_None)
  then show "\<exists>d. WhoisInfo.Domain (convertRDAPToWhoisInfo lib rdap fqdn) = Some d
            \<and> ExpirationDateInTime d = None \<and> ExpirationDate d = ''''"
    by (simp add: convert_Domain events_loop_expiration_time events_loop_expiration_text)
next
  assume "client_Get w (u @ ''/domain/'' @ fqdn) = Inr resp \<and> StatusCode resp = StatusOK
        \<and> ReadErr resp = None \<and> Unmarshal_rdapDomain w (Body resp) = Some rdap"
  then show "fst (query_server w u fqdn calls) = Inr (convertRDAPToWhoisInfo (time w) rdap fqdn)"
    by (simp add: query_server_success)
qed

text \<open>The theorem at the example response: its first event has an unparseable date,
  its second is the expiration event of 15 January 2025.\<close>

theorem normalization_never_fails_witness:
  "(Parse utc_timelib RFC3339 ''1995-08-14 04:00:00'' = None
    \<and> Parse utc_timelib ''2006-01-02T15:04:05Z'' ''1995-08-14 04:00:00'' = None
    \<and> convertRDAPToWhoisInfo utc_timelib example_response ''example.com''
        = convertRDAPToWhoisInfo utc_timelib
            (example_response\<lparr>Events := drop 1 (Events example_response)\<rparr>) ''example.com'')
   \<and> (parse_event_date utc_timelib ''2025-01-15T00:00:00Z''
        = Some \<lparr>unixNano = 1736899200000000000, zoneOffset = 0\<rparr>
    \<and> map_option ExpirationDateInTime
          (WhoisInfo.Domain (convertRDAPToWhoisInfo utc_timelib
             (example_response\<lparr>Events := take 3 (Events example_response)\<rparr>) ''example.com''))
        = Some (Some \<lparr>unixNano = 1736899200000000000, zoneOffset = 0\<rparr>))
   \<and> (events_for utc_timelib [''expiration''] (take 1 (Events example_response)) = []
    \<and> map_option ExpirationDateInTime
          (WhoisInfo.Domain (convertRDAPToWhoisInfo utc_timelib
             (example_response\<lparr>Events := take 1 (Events example_response)\<rparr>) ''example.com''))
        = Some None)
   \<and> fst (query_server (example_world (answer 200 ''services'') (answer 200 ''domain''))
            ''https://rdap.org'' ''example.com'' [])
        = Inr (convertRDAPToWhoisInfo utc_timelib example_response ''example.com'')"
proof -
  let ?bad = "\<lparr>EventAction = ''registration'', EventDate = ''1995-08-14 04:00:00''\<rparr>"
  let ?exp = "\<lparr>EventAction = ''expiration'', EventDate = ''2025-01-15T00:00:00Z''\<rparr>"
  let ?chg = "\<lparr>EventAction = ''last changed'', EventDate = ''2024-08-14T07:01:34Z''\<rparr>"
  let ?t = "\<lparr>unixNano = 1736899200000000000, zoneOffset = 0\<rparr>"
  let ?w = "example_world (answer 200 ''services'') (answer 200 ''domain'')"
  let ?resp = "\<lparr>StatusCode = 200, Body = ''domain'', ReadErr = None\<rparr>"
  have p1: "Parse utc_timelib RFC3339 (EventDate ?bad) = None"
    and p2: "Parse utc_timelib ''2006-01-02T15:04:05Z'' (EventDate ?bad) = None"
    by code_simp+
  have p3: "parse_event_date utc_timelib ''2025-01-15T00:00:00Z'' = Some ?t" by code_simp
  have p4: "events_for utc_timelib [''expiration''] [?chg] = []" by code_simp
  have p5: "events_for utc_timelib [''expiration''] (Events (example_response\<lparr>Events := [?bad]\<rparr>)) = []"
    by code_simp
  have ev: "Events example_response = [] @ ?bad # drop 1 (Events example_response)"
    by (simp add: example_response_def)
  have ev1: "drop 1 (Events example_response) = [] @ drop 1 (Events example_response)" by simp
  have t3: "take 3 (Events example_response) = [?bad] @ ?exp # [?chg]"
    by (simp add: example_response_def)
  have t1: "take 1 (Events example_response) = [?bad]"
    by (simp add: example_response_def)
  have g: "client_Get ?w (''https://rdap.org'' @ ''/domain/'' @ ''example.com'') = Inr ?resp
        \<and> StatusCode ?resp = StatusOK \<and> ReadErr ?resp = None
        \<and> Unmarshal_rdapDomain ?w (Body ?resp) = Some example_response"
    by (simp add: example_world_def answer_def bootstrapURL_def StatusOK_def)
  have tw: "time ?w = utc_timelib" by (simp add: example_world_def)
  note n1 = normalization_never_fails
    [where lib = utc_timelib and rdap = example_response and fqdn = "''example.com''"
       and e = ?bad and pre = "[]" and post = "drop 1 (Events example_response)"
       and w = ?w and u = "''https://rdap.org''" and resp = ?resp and calls = "[]"]
  note n2 = normalization_never_fails
    [where lib = utc_timelib and rdap = example_response and fqdn = "''example.com''"
       and pre = "[?bad]" and post = "[?chg]" and t = ?t]
  note n3 = normalization_never_fails
    [where lib = utc_timelib and rdap = "example_response\<lparr>Events := [?bad]\<rparr>"
       and fqdn = "''example.com''"]
  have a: "convertRDAPToWhoisInfo utc_timelib example_response ''example.com''
        = convertRDAPToWhoisInfo utc_timelib
            (example_response\<lparr>Events := drop 1 (Events example_response)\<rparr>) ''example.com''"
  proof -
    have "convertRDAPToWhoisInfo utc_timelib
            (example_response\<lparr>Events := [] @ ?bad # drop 1 (Events example_response)\<rparr>)
            ''example.com''
        = convertRDAPToWhoisInfo utc_timelib
            (example_response\<lparr>Events := [] @ drop 1 (Events example_response)\<rparr>) ''example.com''"
      using n1 p1 p2 by blast
    moreover have "example_response\<lparr>Events := [] @ ?bad # drop 1 (Events example_response)\<rparr>
                   = example_response"
      using ev by simp
    ultimately show ?thesis by simp
  qed
  have b: "map_option ExpirationDateInTime
          (WhoisInfo.Domain (convertRDAPToWhoisInfo utc_timelib
             (example_response\<lparr>Events := take 3 (Events example_response)\<rparr>) ''example.com''))
        = Some (Some ?t)"
    unfolding t3 using n2 p3 p4 by blast
  have c: "map_option ExpirationDateInTime
          (WhoisInfo.Domain (convertRDAPToWhoisInfo utc_timelib
             (example_response\<lparr>Events := take 1 (Events example_response)\<rparr>) ''example.com''))
        = Some None"
  proof -
    from n3 p5 obtain d where
      "WhoisInfo.Domain (convertRDAPToWhoisInfo utc_timelib
         (example_response\<lparr>Events := [?bad]\<rparr>) ''example.com'') = Some d"
      "ExpirationDateInTime d = None" by blast
    then show ?thesis unfolding t1 by simp
  qed
  have d: "fst (query_server ?w ''https://rdap.org'' ''example.com'' [])
        = Inr (convertRDAPToWhoisInfo utc_timelib example_response ''example.com'')"
    using n1 g unfolding tw by blast
  have p5': "events_for utc_timelib [''expiration''] (take 1 (Events example_response)) = []"
    using p5 unfolding t1 by simp
  from p1 p2 a p3 b p5' c d show ?thesis by simp
qed

text \<open>
  Claim C7 as it was stated gives the expiration date of every response that holds the
  event dated \<^verbatim>\<open>2025-01-15T00:00:00Z\<close>. The example response holds that event, and
  the date parses, but an expiration event for 15 January 2026 follows it: the record's
  expiration date is the later instant.
\<close>

theorem later_expiration_event_overrides_counterexample:
  "\<lparr>EventAction = ''expiration'', EventDate = ''2025-01-15T00:00:00Z''\<rparr>
     \<in> set (Events example_response)
   \<and> Parse utc_timelib RFC3339 ''2025-01-15T00:00:00Z''
       = Some \<lparr>unixNano = 1736899200000000000, zoneOffset = 0\<rparr>
   \<and> map_option ExpirationDateInTime
       (WhoisInfo.Domain (convertRDAPToWhoisInfo utc_timelib example_response ''example.com''))
       = Some (Some \<lparr>unixNano = 1768435200000000000, zoneOffset = 0\<rparr>)"
proof (intro conjI)
  show "\<lparr>EventAction = ''expiration'', EventDate = ''2025-01-15T00:00:00Z''\<rparr>
     \<in> set (Events example_response)"
    by (simp add: example_response_def)
  show "Parse utc_timelib RFC3339 ''2025-01-15T00:00:00Z''
       = Some \<lparr>unixNano = 1736899200000000000, zoneOffset = 0\<rparr>"
    by code_simp
  show "map_option ExpirationDateInTime
       (WhoisInfo.Domain (convertRDAPToWhoisInfo utc_timelib example_response ''example.com''))
       = Some (Some \<lparr>unixNano = 1768435200000000000, zoneOffset = 0\<rparr>)"
    by code_simp
qed

section \<open>Sorting by expiration date\<close>

lemma whois_loop_map:
  "whois_loop G ds acc =
     acc @ map (\<lambda>d. \<lparr>domain = d,
                      whois = (case G (FQDN d) of Inl err \<Rightarrow> None | Inr w \<Rightarrow> Some w)\<rparr>) ds"
  by (induction ds arbitrary: acc) (simp_all split: sum.splits)

lemma whois_loop_domains: "map domain (whois_loop G ds []) = ds"
  by (simp add: whois_loop_map comp_def)

lemma whois_loop_expiration:
  "p \<in> set (whois_loop G ds []) \<Longrightarrow> expiration_of (whois p) = cached_expiration G (domain p)"
  by (auto simp: whois_loop_map cached_expiration_def expiration_of_def split: sum.splits)

lemma less_by_expiration:
  "less_by ''expiration_date'' a b =
     (case expiration_of (whois a) of
        None \<Rightarrow> False
      | Some ta \<Rightarrow>
          (case expiration_of (whois b) of
             None \<Rightarrow> True
           | Some tb \<Rightarrow> unixNano ta < unixNano tb))"
  by (simp add: less_by_def Let_def Before_def split: option.splits)

lemma less_by_expiration_asym:
  "less_by ''expiration_date'' a b \<Longrightarrow> \<not> less_by ''expiration_date'' b a"
  by (auto simp: less_by_expiration split: option.splits)

lemma less_by_expiration_negtrans:
  "\<not> less_by ''expiration_date'' a b \<Longrightarrow> \<not> less_by ''expiration_date'' b c \<Longrightarrow>
   \<not> less_by ''expiration_date'' a c"
  by (auto simp: less_by_expiration split: option.splits)

lemma mset_sink: "mset (sink lt x ys) = add_mset x (mset ys)"
  by (induction ys) simp_all

lemma set_sink: "set (sink lt x ys) = insert x (set ys)"
  by (induction ys) auto

lemma sorted_sink:
  assumes asym: "\<And>a b. lt a b \<Longrightarrow> \<not> lt b a"
    and negtrans: "\<And>a b c. \<not> lt a b \<Longrightarrow> \<not> lt b c \<Longrightarrow> \<not> lt a c"
    and "sorted_wrt (\<lambda>a b. \<not> lt a b) ys"
  shows "sorted_wrt (\<lambda>a b. \<not> lt a b) (sink lt x ys)"
  using assms(3)
proof (induction ys)
  case Nil
  then show ?case by simp
next
  case (Cons y ys)
  show ?case
  proof (cases "lt x y")
    case True
    then have "\<not> lt y x" by (rule asym)
    with True Cons show ?thesis by (auto simp: set_sink)
  next
    case False
    have "\<not> lt x z" if "z \<in> set ys" for z
    proof -
      from that Cons.prems have "\<not> lt y z" by simp
      with False show ?thesis by (rule negtrans)
    qed
    with False Cons.prems show ?thesis by simp
  qed
qed

lemma insertionSort_front:
  assumes asym: "\<And>a b. lt a b \<Longrightarrow> \<not> lt b a"
    and negtrans: "\<And>a b c. \<not> lt a b \<Longrightarrow> \<not> lt b c \<Longrightarrow> \<not> lt a c"
    and "sorted_wrt (\<lambda>a b. \<not> lt a b) front"
  shows "sorted_wrt (\<lambda>a b. \<not> lt a b) (foldl (\<lambda>front x. sink lt x front) front xs)
       \<and> mset (foldl (\<lambda>front x. sink lt x front) front xs) = mset xs + mset front"
  using assms(3)
proof (induction xs arbitrary: front)
  case Nil
  then show ?case by simp
next
  case (Cons x xs)
  have "sorted_wrt (\<lambda>a b. \<not> lt a b) (sink lt x front)"
    using asym negtrans Cons.prems by (rule sorted_sink)
  from Cons.IH[OF this] show ?case by (simp add: mset_sink)
qed

lemma insertionSort_spec:
  assumes asym: "\<And>a b. lt a b \<Longrightarrow> \<not> lt b a"
    and negtrans: "\<And>a b c. \<not> lt a b \<Longrightarrow> \<not> lt b c \<Longrightarrow> \<not> lt a c"
  shows "sort_Slice_spec insertionSort lt xs"
proof -
  have "sorted_wrt (\<lambda>a b. \<not> lt a b) (foldl (\<lambda>front x. sink lt x front) [] xs)
       \<and> mset (foldl (\<lambda>front x. sink lt x front) [] xs) = mset xs + mset []"
  proof (rule insertionSort_front)
    show "\<And>a b. lt a b \<Longrightarrow> \<not> lt b a" by (rule asym)
    show "\<And>a b c. \<not> lt a b \<Longrightarrow> \<not> lt b c \<Longrightarrow> \<not> lt a c" by (rule negtrans)
    show "sorted_wrt (\<lambda>a b. \<not> lt a b) []" by simp
  qed
  then show ?thesis
    by (simp add: sort_Slice_spec_def insertionSort_def sorted_wrt_rev)
qed

text \<open>
  Claim C10. For every domain list sorted by \<^verbatim>\<open>expiration_date\<close>, the result is a
  permutation of the input, every domain with a known cached expiration date stands
  before every domain without one, and the domains with known dates stand in ascending
  order of the date. \<^verbatim>\<open>sort.Slice\<close> is taken by what it promises on the list it is
  called with; the comparison is asymmetric and negatively transitive, which is what
  the promise needs, and insertion sort keeps it.
\<close>

theorem expiration_sort_known_dates_first_ascending:
  assumes "sort_Slice_spec sort_Slice (less_by ''expiration_date'') (whois_loop GetWhois domainList [])"
  shows "mset (sortDomainsWithWhois sort_Slice GetWhois domainList ''expiration_date'')
           = mset domainList
       \<and> sorted_wrt (\<lambda>a b. cached_expiration GetWhois b \<noteq> None
                              \<longrightarrow> cached_expiration GetWhois a \<noteq> None)
           (sortDomainsWithWhois sort_Slice GetWhois domainList ''expiration_date'')
       \<and> sorted_wrt (\<lambda>a b. \<forall>ta tb. cached_expiration GetWhois a = Some ta
                                    \<and> cached_expiration GetWhois b = Some tb
                                    \<longrightarrow> unixNano ta \<le> unixNano tb)
           (sortDomainsWithWhois sort_Slice GetWhois domainList ''expiration_date'')"
proof -
  let ?ps = "whois_loop GetWhois domainList []"
  let ?lt = "less_by ''expiration_date''"
  let ?qs = "sort_Slice ?lt ?ps"
  have out: "sortDomainsWithWhois sort_Slice GetWhois domainList ''expiration_date'' = map domain ?qs"
    by (simp add: sortDomainsWithWhois_def Let_def)
  from assms have perm: "mset ?qs = mset ?ps" and srt: "sorted_wrt (\<lambda>a b. \<not> ?lt b a) ?qs"
    by (simp_all add: sort_Slice_spec_def)
  from perm have "set ?qs = set ?ps" by (rule mset_eq_setD)
  then have inv: "expiration_of (whois p) = cached_expiration GetWhois (domain p)"
    if "p \<in> set ?qs" for p
    using that by (simp add: whois_loop_expiration)
  have 1: "mset (map domain ?qs) = mset domainList"
  proof -
    have "mset (map domain ?qs) = image_mset domain (mset ?qs)" by simp
    also have "\<dots> = image_mset domain (mset ?ps)" by (simp only: perm)
    also have "\<dots> = mset (map domain ?ps)" by simp
    also have "\<dots> = mset domainList" by (simp only: whois_loop_domains)
    finally show ?thesis .
  qed
  have 2: "sorted_wrt (\<lambda>p q. cached_expiration GetWhois (domain q) \<noteq> None
                              \<longrightarrow> cached_expiration GetWhois (domain p) \<noteq> None) ?qs"
  proof (rule sorted_wrt_mono_rel[OF _ srt])
    fix p q assume "p \<in> set ?qs" "q \<in> set ?qs" "\<not> ?lt q p"
    then show "cached_expiration GetWhois (domain q) \<noteq> None
                 \<longrightarrow> cached_expiration GetWhois (domain p) \<noteq> None"
      using inv[of p] inv[of q] by (auto simp: less_by_expiration split: option.splits)
  qed
  have 3: "sorted_wrt (\<lambda>p q. \<forall>ta tb. cached_expiration GetWhois (domain p) = Some ta
                                    \<and> cached_expiration GetWhois (domain q) = Some tb
                                    \<longrightarrow> unixNano ta \<le> unixNano tb) ?qs"
  proof (rule sorted_wrt_mono_rel[OF _ srt])
    fix p q assume "p \<in> set ?qs" "q \<in> set ?qs" "\<not> ?lt q p"
    then show "\<forall>ta tb. cached_expiration GetWhois (domain p) = Some ta
                                    \<and> cached_expiration GetWhois (domain q) = Some tb
                                    \<longrightarrow> unixNano ta \<le> unixNano tb"
      using inv[of p] inv[of q] by (auto simp: less_by_expiration split: option.splits)
  qed
  from 1 2 3 show ?thesis unfolding out by (simp add: sorted_wrt_map)
qed

text \<open>The theorem at the four example domains, sorted by insertion sort.\<close>

theorem expiration_sort_known_dates_first_ascending_witness:
  "sort_Slice_spec insertionSort (less_by ''expiration_date'')
     (whois_loop example_GetWhois example_domains [])
   \<and> map FQDN (sortDomainsWithWhois insertionSort example_GetWhois example_domains
                 ''expiration_date'')
       = [''c.net'', ''a.com'', ''b.org'', ''d.io'']
   \<and> map (cached_expiration example_GetWhois)
       (sortDomainsWithWhois insertionSort example_GetWhois example_domains ''expiration_date'')
       = [Some \<lparr>unixNano = 1736899200000000000, zoneOffset = 0\<rparr>,
          Some \<lparr>unixNano = 1768435200000000000, zoneOffset = 0\<rparr>, None, None]
   \<and> mset (sortDomainsWithWhois insertionSort example_GetWhois example_domains
             ''expiration_date'') = mset example_domains"
proof -
  have h: "sort_Slice_spec insertionSort (less_by ''expiration_date'')
     (whois_loop example_GetWhois example_domains [])"
    using less_by_expiration_asym less_by_expiration_negtrans by (rule insertionSort_spec)
  have a: "map FQDN (sortDomainsWithWhois insertionSort example_GetWhois example_domains
                 ''expiration_date'')
       = [''c.net'', ''a.com'', ''b.org'', ''d.io'']"
    by code_simp
  have b: "map (cached_expiration example_GetWhois)
       (sortDomainsWithWhois insertionSort example_GetWhois example_domains ''expiration_date'')
       = [Some \<lparr>unixNano = 1736899200000000000, zoneOffset = 0\<rparr>,
          Some \<lparr>unixNano = 1768435200000000000, zoneOffset = 0\<rparr>, None, None]"
    by code_simp
  from expiration_sort_known_dates_first_ascending[OF h] h a b show ?thesis by blast
qed

end
